theory Spec2Isabelle
  imports Main "HOL-Library.AList"
begin

section \<open>JavaScript maps\<close>

text \<open>
  A JavaScript \<^verbatim>\<open>Map\<close> keeps its entries in insertion order: \<^verbatim>\<open>set\<close> on a key that is
  present replaces the value in place, \<^verbatim>\<open>set\<close> on a new key appends, \<^verbatim>\<open>delete\<close>
  drops the entry. It is modelled as an association list: \<^const>\<open>map_of\<close> is
  \<^verbatim>\<open>get\<close>, \<^const>\<open>AList.update\<close> is \<^verbatim>\<open>set\<close>, \<^const>\<open>AList.delete\<close> is \<^verbatim>\<open>delete\<close>,
  \<open>map snd\<close> is \<^verbatim>\<open>values()\<close> and \<open>map fst\<close> is \<^verbatim>\<open>keys()\<close>.
\<close>

definition has_key :: "('k \<times> 'v) list \<Rightarrow> 'k \<Rightarrow> bool" where
  "has_key m k = (map_of m k \<noteq> None)"

section \<open>Chat service (chat.service.ts)\<close>

record message =
  msg_userId :: string
  msg_userName :: string
  msg_message :: string
  msg_timestamp :: nat

record room_user =
  ru_id :: string
  ru_name :: string

text \<open>
  \<^verbatim>\<open>password?: string\<close> is an optional field; \<^verbatim>\<open>allowedUsers\<close> is optional in the
  interface, but \<^verbatim>\<open>createRoom\<close>, the only place that builds a room, always sets it to a
  new \<^verbatim>\<open>Set\<close>.
\<close>

record room =
  users :: "(string \<times> room_user) list"
  messages :: "message list"
  isPrivate :: bool
  password :: "string option"
  allowedUsers :: "string set"
  creatorId :: string

record chat_service =
  rooms :: "(string \<times> room) list"
  userNames :: "string \<rightharpoonup> string"

definition chat_service_init :: chat_service where
  "chat_service_init = \<lparr>rooms = [], userNames = Map.empty\<rparr>"

definition createRoom :: "chat_service \<Rightarrow> string \<Rightarrow> string \<Rightarrow> bool \<Rightarrow> string option \<Rightarrow> chat_service" where
  "createRoom s rid creator priv pw =
     (if \<not> has_key (rooms s) rid
      then s\<lparr>rooms := AList.update rid
             \<lparr>users = [], messages = [], isPrivate = priv, password = pw,
              allowedUsers = {}, creatorId = creator\<rparr> (rooms s)\<rparr>
      else s)"

definition setUserName :: "chat_service \<Rightarrow> string \<Rightarrow> string \<Rightarrow> chat_service" where
  "setUserName s uid uname = s\<lparr>userNames := (userNames s)(uid \<mapsto> uname)\<rparr>"

text \<open>
  \<^verbatim>\<open>this.userNames.get(userId) || `User ${userId.slice(0, 6)}`\<close>: the right operand is
  taken when the left one is falsy, that is \<^verbatim>\<open>undefined\<close> or the empty string.
\<close>

definition getUserName :: "chat_service \<Rightarrow> string \<Rightarrow> string" where
  "getUserName s uid =
     (case userNames s uid of
        None \<Rightarrow> ''User '' @ take 6 uid
      | Some n \<Rightarrow> if n = [] then ''User '' @ take 6 uid else n)"

definition removeRoom :: "chat_service \<Rightarrow> string \<Rightarrow> chat_service" where
  "removeRoom s rid = s\<lparr>rooms := AList.delete rid (rooms s)\<rparr>"

definition addUserToRoom :: "chat_service \<Rightarrow> string \<Rightarrow> string \<Rightarrow> chat_service" where
  "addUserToRoom s rid uid =
     (case map_of (rooms s) rid of
        None \<Rightarrow> s
      | Some r \<Rightarrow>
          s\<lparr>rooms := AList.update rid
               (r\<lparr>users := AList.update uid \<lparr>ru_id = uid, ru_name = getUserName s uid\<rparr> (users r)\<rparr>)
               (rooms s)\<rparr>)"

definition removeUserFromRoom :: "chat_service \<Rightarrow> string \<Rightarrow> string \<Rightarrow> chat_service" where
  "removeUserFromRoom s rid uid =
     (case map_of (rooms s) rid of
        None \<Rightarrow> s
      | Some r \<Rightarrow> s\<lparr>rooms := AList.update rid (r\<lparr>users := AList.delete uid (users r)\<rparr>) (rooms s)\<rparr>)"

definition addMessage :: "chat_service \<Rightarrow> string \<Rightarrow> message \<Rightarrow> chat_service" where
  "addMessage s rid m =
     (case map_of (rooms s) rid of
        None \<Rightarrow> s
      | Some r \<Rightarrow> s\<lparr>rooms := AList.update rid (r\<lparr>messages := messages r @ [m]\<rparr>) (rooms s)\<rparr>)"

definition getRoom :: "chat_service \<Rightarrow> string \<Rightarrow> room option" where
  "getRoom s rid = map_of (rooms s) rid"

definition getRooms :: "chat_service \<Rightarrow> string list" where
  "getRooms s = map fst (rooms s)"

definition getRoomsByUserId :: "chat_service \<Rightarrow> string \<Rightarrow> string list" where
  "getRoomsByUserId s uid = map fst (filter (\<lambda>(_, r). has_key (users r) uid) (rooms s))"

text \<open>The boolean is the method's return value.\<close>

definition addUserToPrivateRoom :: "chat_service \<Rightarrow> string \<Rightarrow> string \<Rightarrow> bool \<times> chat_service" where
  "addUserToPrivateRoom s rid uid =
     (case map_of (rooms s) rid of
        None \<Rightarrow> (False, s)
      | Some r \<Rightarrow>
          if \<not> isPrivate r then (False, s)
          else (True, s\<lparr>rooms := AList.update rid (r\<lparr>allowedUsers := insert uid (allowedUsers r)\<rparr>) (rooms s)\<rparr>))"

definition canAccessRoom :: "chat_service \<Rightarrow> string \<Rightarrow> string \<Rightarrow> bool" where
  "canAccessRoom s rid uid =
     (case map_of (rooms s) rid of
        None \<Rightarrow> False
      | Some r \<Rightarrow> if \<not> isPrivate r then True else uid \<in> allowedUsers r)"

definition verifyRoomPassword :: "chat_service \<Rightarrow> string \<Rightarrow> string \<Rightarrow> bool" where
  "verifyRoomPassword s rid pw =
     (case map_of (rooms s) rid of
        None \<Rightarrow> False
      | Some r \<Rightarrow> if \<not> isPrivate r then False else password r = Some pw)"

definition isRoomCreator :: "chat_service \<Rightarrow> string \<Rightarrow> string \<Rightarrow> bool" where
  "isRoomCreator s rid uid =
     (case map_of (rooms s) rid of None \<Rightarrow> False | Some r \<Rightarrow> creatorId r = uid)"

text \<open>\<^verbatim>\<open>null\<close> is \<^const>\<open>None\<close>.\<close>

definition getRoomCreator :: "chat_service \<Rightarrow> string \<Rightarrow> string option" where
  "getRoomCreator s rid = map_option creatorId (map_of (rooms s) rid)"

section \<open>Chat gateway (chat.gateway.ts)\<close>

text \<open>
  The gateway talks to the transport through \<^verbatim>\<open>client.emit\<close>, \<^verbatim>\<open>server.emit\<close>,
  \<^verbatim>\<open>server.to(group).emit\<close>, \<^verbatim>\<open>client.join\<close> and \<^verbatim>\<open>client.leave\<close>. Every emit is
  recorded, in order, with its addressee as the code names it; \<^verbatim>\<open>join\<close> and \<^verbatim>\<open>leave\<close>
  update the set of (connection, group) pairs. What the transport does on its own when a
  socket closes is not part of this code and is not modelled.
\<close>

datatype target = ToClient string | ToRoom string | ToAll

text \<open>
  The \<^verbatim>\<open>room_users\<close> payload carries \<^verbatim>\<open>creatorId\<close> only in some handlers: the outer
  option is \<^const>\<open>None\<close> where the field is absent, the inner one where it is \<^verbatim>\<open>null\<close>.
\<close>

datatype payload =
    Connected string
  | RoomList "string list"
  | RoomUsers string "room_user list" "string option option"
  | ErrorEvent string
  | RoomCreated string bool string
  | NewMessage message
  | RoomListUpdated
  | RoomRemoved string
  | RemovedFromRoom string

record chat_gateway =
  chatService :: chat_service
  userRooms :: "string \<rightharpoonup> string"
  joined :: "(string \<times> string) set"
  outbox :: "(target \<times> payload) list"

definition chat_gateway_init :: chat_gateway where
  "chat_gateway_init =
     \<lparr>chatService = chat_service_init, userRooms = Map.empty, joined = {}, outbox = []\<rparr>"

definition emit :: "chat_gateway \<Rightarrow> target \<Rightarrow> payload \<Rightarrow> chat_gateway" where
  "emit g t p = g\<lparr>outbox := outbox g @ [(t, p)]\<rparr>"

text \<open>
  \<^verbatim>\<open>room ? Array.from(room.users.values()).map(u => ({ id: u.id, name: u.name })) : []\<close>
\<close>

definition roster :: "room option \<Rightarrow> room_user list" where
  "roster ro = (case ro of None \<Rightarrow> [] | Some r \<Rightarrow> map snd (users r))"

definition handleConnection :: "chat_gateway \<Rightarrow> string \<Rightarrow> chat_gateway" where
  "handleConnection g client =
     emit (emit g (ToClient client) (Connected client))
       (ToClient client) (RoomList (getRooms (chatService g)))"

text \<open>\<^verbatim>\<open>if (currentRoom)\<close> is false for \<^verbatim>\<open>undefined\<close> and for the empty string.\<close>

definition handleDisconnect :: "chat_gateway \<Rightarrow> string \<Rightarrow> chat_gateway" where
  "handleDisconnect g client =
     (case userRooms g client of
        None \<Rightarrow> g
      | Some currentRoom \<Rightarrow>
          if currentRoom = [] then g
          else
            (let g1 = g\<lparr>chatService := removeUserFromRoom (chatService g) currentRoom client\<rparr>;
                 g2 = g1\<lparr>joined := joined g1 - {(client, currentRoom)}\<rparr>
             in emit g2 (ToRoom currentRoom)
                  (RoomUsers currentRoom (roster (getRoom (chatService g2) currentRoom)) None)))"

definition handleSetUserName :: "chat_gateway \<Rightarrow> string \<Rightarrow> string \<Rightarrow> chat_gateway" where
  "handleSetUserName g client uname =
     (let g1 = g\<lparr>chatService := setUserName (chatService g) client uname\<rparr>
      in case userRooms g1 client of
           None \<Rightarrow> g1
         | Some currentRoom \<Rightarrow>
             if currentRoom = [] then g1
             else emit g1 (ToRoom currentRoom)
                    (RoomUsers currentRoom (roster (getRoom (chatService g1) currentRoom)) None))"

text \<open>
  The payload's \<^verbatim>\<open>isPrivate\<close> is optional and defaults to \<^verbatim>\<open>false\<close>; its
  \<^verbatim>\<open>password\<close> is optional.
\<close>

definition handleCreateRoom ::
  "chat_gateway \<Rightarrow> string \<Rightarrow> string \<Rightarrow> bool option \<Rightarrow> string option \<Rightarrow> chat_gateway" where
  "handleCreateRoom g client roomName isPrivateOpt pw =
     (let priv = (case isPrivateOpt of None \<Rightarrow> False | Some b \<Rightarrow> b);
          g1 = g\<lparr>chatService := createRoom (chatService g) roomName client priv pw\<rparr>;
          g2 = (if priv
                then g1\<lparr>chatService := snd (addUserToPrivateRoom (chatService g1) roomName client)\<rparr>
                else g1)
      in emit g2 ToAll (RoomCreated roomName priv client))"

definition handleGetRooms :: "chat_gateway \<Rightarrow> string \<Rightarrow> chat_gateway" where
  "handleGetRooms g client =
     emit g (ToClient client)
       (RoomList (filter (\<lambda>rid. canAccessRoom (chatService g) rid client) (getRooms (chatService g))))"

text \<open>
  The tail of \<^verbatim>\<open>handleJoinRoom\<close>, reached when the room exists and access is granted:
  \<^verbatim>\<open>addUserToRoom\<close>, \<^verbatim>\<open>client.join\<close>, and the \<^verbatim>\<open>room_users\<close> broadcast.
\<close>

definition handleJoinRoom_admit :: "chat_gateway \<Rightarrow> string \<Rightarrow> string \<Rightarrow> chat_gateway" where
  "handleJoinRoom_admit g client rid =
     (let g1 = g\<lparr>chatService := addUserToRoom (chatService g) rid client\<rparr>;
          g2 = g1\<lparr>joined := insert (client, rid) (joined g1)\<rparr>
      in emit g2 (ToRoom rid)
           (RoomUsers rid (roster (getRoom (chatService g2) rid))
              (Some (getRoomCreator (chatService g2) rid))))"

text \<open>
  \<^verbatim>\<open>password && this.chatService.verifyRoomPassword(roomId, password)\<close>: a password that
  is absent or empty is falsy, and the stored password is not looked at.
\<close>

definition handleJoinRoom :: "chat_gateway \<Rightarrow> string \<Rightarrow> string \<Rightarrow> string option \<Rightarrow> chat_gateway" where
  "handleJoinRoom g client rid pw =
     (case getRoom (chatService g) rid of
        None \<Rightarrow> emit g (ToClient client) (ErrorEvent ''Room not found'')
      | Some r \<Rightarrow>
          if isPrivate r \<and> \<not> canAccessRoom (chatService g) rid client
          then
            (case pw of
               None \<Rightarrow> emit g (ToClient client) (ErrorEvent ''Unauthorized'')
             | Some p \<Rightarrow>
                 if p \<noteq> [] \<and> verifyRoomPassword (chatService g) rid p
                 then handleJoinRoom_admit
                        (g\<lparr>chatService := snd (addUserToPrivateRoom (chatService g) rid client)\<rparr>)
                        client rid
                 else emit g (ToClient client) (ErrorEvent ''Unauthorized''))
          else handleJoinRoom_admit g client rid)"

definition handleLeaveRoom :: "chat_gateway \<Rightarrow> string \<Rightarrow> string \<Rightarrow> chat_gateway" where
  "handleLeaveRoom g client rid =
     (let g1 = g\<lparr>chatService := removeUserFromRoom (chatService g) rid client\<rparr>;
          g2 = g1\<lparr>joined := joined g1 - {(client, rid)}\<rparr>;
          g3 = g2\<lparr>userRooms := (userRooms g2)(client := None)\<rparr>
      in emit g3 (ToRoom rid)
           (RoomUsers rid (roster (getRoom (chatService g3) rid))
              (Some (getRoomCreator (chatService g3) rid))))"

text \<open>\<^verbatim>\<open>new Date()\<close> is the argument \<open>now\<close>.\<close>

definition handleSendMessage :: "chat_gateway \<Rightarrow> string \<Rightarrow> string \<Rightarrow> string \<Rightarrow> nat \<Rightarrow> chat_gateway" where
  "handleSendMessage g client rid txt now =
     (let m = \<lparr>msg_userId = client, msg_userName = getUserName (chatService g) client,
               msg_message = txt, msg_timestamp = now\<rparr>;
          g1 = g\<lparr>chatService := addMessage (chatService g) rid m\<rparr>
      in emit g1 (ToRoom rid) (NewMessage m))"

definition handleAddUserToPrivateRoom :: "chat_gateway \<Rightarrow> string \<Rightarrow> string \<Rightarrow> string \<Rightarrow> chat_gateway" where
  "handleAddUserToPrivateRoom g client rid uid =
     (case getRoom (chatService g) rid of
        None \<Rightarrow> emit g (ToClient client) (ErrorEvent ''Invalid room'')
      | Some r \<Rightarrow>
          if \<not> isPrivate r then emit g (ToClient client) (ErrorEvent ''Invalid room'')
          else emit (g\<lparr>chatService := snd (addUserToPrivateRoom (chatService g) rid uid)\<rparr>)
                 ToAll RoomListUpdated)"

definition handleRemoveRoom :: "chat_gateway \<Rightarrow> string \<Rightarrow> string \<Rightarrow> chat_gateway" where
  "handleRemoveRoom g client rid =
     (if \<not> isRoomCreator (chatService g) rid client
      then emit g (ToClient client) (ErrorEvent ''Apenas o criador pode deletar a sala'')
      else emit (g\<lparr>chatService := removeRoom (chatService g) rid\<rparr>) ToAll (RoomRemoved rid))"

text \<open>
  \<open>online\<close> says whether \<^verbatim>\<open>this.server.sockets.sockets.get(userId)\<close> finds a socket.
  The Portuguese message has its non-ASCII letter written as \<open>a\<close>.
\<close>

definition handleRemoveUserFromRoom ::
  "chat_gateway \<Rightarrow> string \<Rightarrow> string \<Rightarrow> string \<Rightarrow> bool \<Rightarrow> chat_gateway" where
  "handleRemoveUserFromRoom g client rid uid online =
     (if \<not> isRoomCreator (chatService g) rid client
      then emit g (ToClient client) (ErrorEvent ''Apenas o criador pode remover usuarios'')
      else
        (let g1 = g\<lparr>chatService := removeUserFromRoom (chatService g) rid uid\<rparr>;
             g2 = (if online
                   then emit (g1\<lparr>joined := joined g1 - {(uid, rid)}\<rparr>) (ToClient uid) (RemovedFromRoom rid)
                   else g1)
         in emit g2 (ToRoom rid)
              (RoomUsers rid (roster (getRoom (chatService g2) rid))
                 (Some (getRoomCreator (chatService g2) rid)))))"

text \<open>
  The events a connection can cause, each with the connection id first, and the gateway
  as a state machine over them.
\<close>

datatype chat_event =
    Connect string
  | Disconnect string
  | SetUserName string string
  | CreateRoom string string "bool option" "string option"
  | GetRooms string
  | JoinRoom string string "string option"
  | LeaveRoom string string
  | SendMessage string string string nat
  | AddUserToPrivateRoom string string string
  | RemoveRoom string string
  | RemoveUserFromRoom string string string bool

fun chat_step :: "chat_gateway \<Rightarrow> chat_event \<Rightarrow> chat_gateway" where
  "chat_step g (Connect c) = handleConnection g c"
| "chat_step g (Disconnect c) = handleDisconnect g c"
| "chat_step g (SetUserName c n) = handleSetUserName g c n"
| "chat_step g (CreateRoom c rid priv pw) = handleCreateRoom g c rid priv pw"
| "chat_step g (GetRooms c) = handleGetRooms g c"
| "chat_step g (JoinRoom c rid pw) = handleJoinRoom g c rid pw"
| "chat_step g (LeaveRoom c rid) = handleLeaveRoom g c rid"
| "chat_step g (SendMessage c rid txt now) = handleSendMessage g c rid txt now"
| "chat_step g (AddUserToPrivateRoom c rid uid) = handleAddUserToPrivateRoom g c rid uid"
| "chat_step g (RemoveRoom c rid) = handleRemoveRoom g c rid"
| "chat_step g (RemoveUserFromRoom c rid uid online) = handleRemoveUserFromRoom g c rid uid online"

definition run_chat :: "chat_gateway \<Rightarrow> chat_event list \<Rightarrow> chat_gateway" where
  "run_chat g es = foldl chat_step g es"

text \<open>
  An event removes the room \<open>rid\<close> in state \<open>g\<close> when it is a \<^verbatim>\<open>remove_room\<close> for that
  name sent by the room's creator: \<^verbatim>\<open>handleRemoveRoom\<close> refuses every other sender and
  leaves the room in place. A room is kept along a sequence of events when no event
  removes it in the state in which it arrives.
\<close>

fun removes_room :: "chat_gateway \<Rightarrow> string \<Rightarrow> chat_event \<Rightarrow> bool" where
  "removes_room g rid (RemoveRoom c r) = (r = rid \<and> isRoomCreator (chatService g) rid c)"
| "removes_room g rid _ = False"

fun room_kept :: "chat_gateway \<Rightarrow> string \<Rightarrow> chat_event list \<Rightarrow> bool" where
  "room_kept g rid [] = True"
| "room_kept g rid (ev # es) = (\<not> removes_room g rid ev \<and> room_kept (chat_step g ev) rid es)"

text \<open>
  Predicates on the registry used below: the connection is on the allow-list of a private
  room of that name; the connection is in the membership map of the room of that name;
  every private room has its creator on its allow-list.
\<close>

definition allowed_in :: "chat_service \<Rightarrow> string \<Rightarrow> string \<Rightarrow> bool" where
  "allowed_in s rid c =
     (case map_of (rooms s) rid of None \<Rightarrow> False | Some r \<Rightarrow> isPrivate r \<and> c \<in> allowedUsers r)"

definition is_member :: "chat_service \<Rightarrow> string \<Rightarrow> string \<Rightarrow> bool" where
  "is_member s rid c =
     (case map_of (rooms s) rid of None \<Rightarrow> False | Some r \<Rightarrow> has_key (users r) c)"

definition creator_allowed :: "chat_service \<Rightarrow> bool" where
  "creator_allowed s =
     (\<forall>rid r. map_of (rooms s) rid = Some r \<longrightarrow> isPrivate r \<longrightarrow> creatorId r \<in> allowedUsers r)"

section \<open>Voice service (voice.service.ts)\<close>

subsection \<open>The media engine\<close>

text \<open>
  The media engine (mediasoup) is outside the repository. The service holds handles to the
  engine's routers, transports, producers and consumers, and calls the engine through
  them. A handle is its id, plus the \<^verbatim>\<open>paused\<close> flag of a producer or consumer, which
  \<^verbatim>\<open>pause()\<close> and \<^verbatim>\<open>resume()\<close> change; ICE and DTLS parameters and RTP parameters are
  opaque data of the engine and are left out.

  Every call the service makes on the engine is recorded, in order. What the engine
  decides is a parameter of the model: the id it gives to the object a call creates,
  whether it rejects an awaited call (the promise rejects, and the service method throws),
  what \<^verbatim>\<open>router.canConsume\<close> answers, and a router's \<^verbatim>\<open>rtpCapabilities\<close>. The first two
  are indexed by the number of calls made so far. The \<^verbatim>\<open>close()\<close> methods are synchronous
  and do not fail.
\<close>

datatype direction = Send | Recv

datatype media_kind = Audio | Video

datatype engine_call =
    CreateRouter
  | CreateWebRtcTransport string
  | TransportConnect string string
  | TransportProduce string media_kind string "bool option"
  | TransportConsume string string string bool
  | ConsumerResume string
  | ProducerPause string
  | ProducerResume string
  | ProducerClose string
  | ConsumerClose string
  | TransportClose string
  | RouterClose string

record engine =
  new_id :: "nat \<Rightarrow> string"
  rejects :: "nat \<Rightarrow> bool"
  canConsume :: "string \<Rightarrow> string \<Rightarrow> string \<Rightarrow> bool"
  rtpCapabilities :: "string \<Rightarrow> string"

record router_handle =
  r_id :: string

record transport_handle =
  t_id :: string

record producer_handle =
  p_id :: string
  p_kind :: media_kind
  p_paused :: bool

record consumer_handle =
  c_id :: string
  c_producerId :: string
  c_paused :: bool

subsection \<open>State\<close>

record voice_user =
  userId :: string
  userName :: string
  producerTransport :: "transport_handle option"
  consumerTransport :: "transport_handle option"
  producer :: "producer_handle option"
  consumers :: "(string \<times> consumer_handle) list"
  isMuted :: bool

record voice_room =
  vr_roomId :: string
  vr_router :: router_handle
  vr_users :: "(string \<times> voice_user) list"

record voice_service =
  voiceRooms :: "(string \<times> voice_room) list"
  engine_log :: "engine_call list"

definition voice_service_init :: voice_service where
  "voice_service_init = \<lparr>voiceRooms = [], engine_log = []\<rparr>"

text \<open>
  The errors the service throws, by their messages: \<open>Voice room not found\<close>,
  \<open>User not found\<close>, \<open>Transport not found\<close>, \<open>User or transport not found\<close>,
  \<open>Cannot consume\<close>, \<open>Consumer not found\<close>, \<open>User not found in voice room\<close>, and
  whatever a rejected engine call throws.
\<close>

datatype voice_error =
    VoiceRoomNotFound
  | UserNotFound
  | TransportNotFound
  | UserOrTransportNotFound
  | CannotConsume
  | ConsumerNotFound
  | UserNotFoundInVoiceRoom
  | EngineRejected

fun is_not_found :: "voice_error \<Rightarrow> bool" where
  "is_not_found CannotConsume = False"
| "is_not_found EngineRejected = False"
| "is_not_found _ = True"

text \<open>
  A method returns its outcome, an error or a value, together with the state it leaves:
  what a method has changed before it throws stays changed.
\<close>

type_synonym 'a outcome = "(voice_error + 'a) \<times> voice_service"

text \<open>
  An awaited engine call: it is recorded, and it yields the id of the new object, or
  nothing when the engine rejects it.
\<close>

definition engine_request :: "engine \<Rightarrow> voice_service \<Rightarrow> engine_call \<Rightarrow> string option \<times> voice_service" where
  "engine_request eng s call =
     (if rejects eng (length (engine_log s)) then None else Some (new_id eng (length (engine_log s))),
      s\<lparr>engine_log := engine_log s @ [call]\<rparr>)"

definition engine_close :: "voice_service \<Rightarrow> engine_call \<Rightarrow> voice_service" where
  "engine_close s call = s\<lparr>engine_log := engine_log s @ [call]\<rparr>"

text \<open>
  The service mutates the \<^verbatim>\<open>VoiceUser\<close> object it looked up in the room's map; in the
  model the changed user is stored back under its key, in place.
\<close>

definition put_user :: "voice_service \<Rightarrow> string \<Rightarrow> voice_room \<Rightarrow> string \<Rightarrow> voice_user \<Rightarrow> voice_service" where
  "put_user s rid vr uid u =
     s\<lparr>voiceRooms := AList.update rid (vr\<lparr>vr_users := AList.update uid u (vr_users vr)\<rparr>) (voiceRooms s)\<rparr>"

subsection \<open>Operations\<close>

definition getOrCreateRouter :: "engine \<Rightarrow> voice_service \<Rightarrow> string \<Rightarrow> router_handle outcome" where
  "getOrCreateRouter eng s rid =
     (case map_of (voiceRooms s) rid of
        Some vr \<Rightarrow> (Inr (vr_router vr), s)
      | None \<Rightarrow>
          (case engine_request eng s CreateRouter of
             (None, s1) \<Rightarrow> (Inl EngineRejected, s1)
           | (Some i, s1) \<Rightarrow>
               (Inr \<lparr>r_id = i\<rparr>,
                s1\<lparr>voiceRooms := AList.update rid
                     \<lparr>vr_roomId = rid, vr_router = \<lparr>r_id = i\<rparr>, vr_users = []\<rparr> (voiceRooms s1)\<rparr>)))"

definition getRouterRtpCapabilities :: "engine \<Rightarrow> voice_service \<Rightarrow> string \<Rightarrow> string outcome" where
  "getRouterRtpCapabilities eng s rid =
     (case getOrCreateRouter eng s rid of
        (Inl e, s1) \<Rightarrow> (Inl e, s1)
      | (Inr rt, s1) \<Rightarrow> (Inr (rtpCapabilities eng (r_id rt)), s1))"

definition setUserTransport ::
  "voice_service \<Rightarrow> string \<Rightarrow> string \<Rightarrow> transport_handle \<Rightarrow> direction \<Rightarrow> unit outcome" where
  "setUserTransport s rid uid t dir =
     (case map_of (voiceRooms s) rid of
        None \<Rightarrow> (Inl VoiceRoomNotFound, s)
      | Some vr \<Rightarrow>
          (case map_of (vr_users vr) uid of
             None \<Rightarrow> (Inl UserNotFound, s)
           | Some u \<Rightarrow>
               (Inr (),
                put_user s rid vr uid
                  (case dir of
                     Send \<Rightarrow> u\<lparr>producerTransport := Some t\<rparr>
                   | Recv \<Rightarrow> u\<lparr>consumerTransport := Some t\<rparr>))))"

definition createWebRtcTransport ::
  "engine \<Rightarrow> voice_service \<Rightarrow> string \<Rightarrow> string \<Rightarrow> direction \<Rightarrow> transport_handle outcome" where
  "createWebRtcTransport eng s rid uid dir =
     (case getOrCreateRouter eng s rid of
        (Inl e, s1) \<Rightarrow> (Inl e, s1)
      | (Inr rt, s1) \<Rightarrow>
          (case map_of (voiceRooms s1) rid of
             None \<Rightarrow> (Inl VoiceRoomNotFound, s1)
           | Some vr \<Rightarrow>
               (case engine_request eng s1 (CreateWebRtcTransport (r_id rt)) of
                  (None, s2) \<Rightarrow> (Inl EngineRejected, s2)
                | (Some i, s2) \<Rightarrow>
                    (case setUserTransport s2 rid uid \<lparr>t_id = i\<rparr> dir of
                       (Inl e, s3) \<Rightarrow> (Inl e, s3)
                     | (Inr _, s3) \<Rightarrow> (Inr \<lparr>t_id = i\<rparr>, s3)))))"

text \<open>
  \<^verbatim>\<open>user.producerTransport?.id === transportId ? ... : user.consumerTransport?.id === transportId ? ... : null\<close>
\<close>

definition find_transport :: "voice_user \<Rightarrow> string \<Rightarrow> transport_handle option" where
  "find_transport u tid =
     (case producerTransport u of
        Some t \<Rightarrow>
          if t_id t = tid then Some t
          else (case consumerTransport u of
                  Some t' \<Rightarrow> if t_id t' = tid then Some t' else None
                | None \<Rightarrow> None)
      | None \<Rightarrow>
          (case consumerTransport u of
             Some t' \<Rightarrow> if t_id t' = tid then Some t' else None
           | None \<Rightarrow> None))"

definition connectWebRtcTransport ::
  "engine \<Rightarrow> voice_service \<Rightarrow> string \<Rightarrow> string \<Rightarrow> string \<Rightarrow> string \<Rightarrow> unit outcome" where
  "connectWebRtcTransport eng s rid uid tid dtls =
     (case map_of (voiceRooms s) rid of
        None \<Rightarrow> (Inl VoiceRoomNotFound, s)
      | Some vr \<Rightarrow>
          (case map_of (vr_users vr) uid of
             None \<Rightarrow> (Inl UserNotFound, s)
           | Some u \<Rightarrow>
               (case find_transport u tid of
                  Some t \<Rightarrow>
                    (case engine_request eng s (TransportConnect (t_id t) dtls) of
                       (None, s1) \<Rightarrow> (Inl EngineRejected, s1)
                     | (Some _, s1) \<Rightarrow> (Inr (), s1))
                | None \<Rightarrow> (Inl TransportNotFound, s))))"

text \<open>
  \<^verbatim>\<open>user.producerTransport.produce({ kind, rtpParameters })\<close>: the request has no
  \<^verbatim>\<open>paused\<close> option, and the engine then creates the producer running. The
  \<^verbatim>\<open>transportId\<close> argument is not used by the method.
\<close>

definition new_producer :: "string \<Rightarrow> media_kind \<Rightarrow> bool option \<Rightarrow> producer_handle" where
  "new_producer i kind paused_opt =
     \<lparr>p_id = i, p_kind = kind, p_paused = (case paused_opt of None \<Rightarrow> False | Some b \<Rightarrow> b)\<rparr>"

definition produce ::
  "engine \<Rightarrow> voice_service \<Rightarrow> string \<Rightarrow> string \<Rightarrow> string \<Rightarrow> media_kind \<Rightarrow> string \<Rightarrow> string outcome" where
  "produce eng s rid uid tid kind rtp =
     (case map_of (voiceRooms s) rid of
        None \<Rightarrow> (Inl VoiceRoomNotFound, s)
      | Some vr \<Rightarrow>
          (case map_of (vr_users vr) uid of
             None \<Rightarrow> (Inl UserOrTransportNotFound, s)
           | Some u \<Rightarrow>
               (case producerTransport u of
                  None \<Rightarrow> (Inl UserOrTransportNotFound, s)
                | Some t \<Rightarrow>
                    (case engine_request eng s (TransportProduce (t_id t) kind rtp None) of
                       (None, s1) \<Rightarrow> (Inl EngineRejected, s1)
                     | (Some i, s1) \<Rightarrow>
                         (Inr i, put_user s1 rid vr uid (u\<lparr>producer := Some (new_producer i kind None)\<rparr>))))))"

text \<open>
  \<^verbatim>\<open>user.consumerTransport.consume({ producerId, rtpCapabilities, paused: true })\<close>; the
  method returns the new consumer's id, producer id, kind and RTP parameters, here the
  handle.
\<close>

definition consume ::
  "engine \<Rightarrow> voice_service \<Rightarrow> string \<Rightarrow> string \<Rightarrow> string \<Rightarrow> string \<Rightarrow> consumer_handle outcome" where
  "consume eng s rid uid pid caps =
     (case map_of (voiceRooms s) rid of
        None \<Rightarrow> (Inl VoiceRoomNotFound, s)
      | Some vr \<Rightarrow>
          if \<not> canConsume eng (r_id (vr_router vr)) pid caps then (Inl CannotConsume, s)
          else
            (case map_of (vr_users vr) uid of
               None \<Rightarrow> (Inl UserOrTransportNotFound, s)
             | Some u \<Rightarrow>
                 (case consumerTransport u of
                    None \<Rightarrow> (Inl UserOrTransportNotFound, s)
                  | Some t \<Rightarrow>
                      (case engine_request eng s (TransportConsume (t_id t) pid caps True) of
                         (None, s1) \<Rightarrow> (Inl EngineRejected, s1)
                       | (Some i, s1) \<Rightarrow>
                           (Inr \<lparr>c_id = i, c_producerId = pid, c_paused = True\<rparr>,
                            put_user s1 rid vr uid
                              (u\<lparr>consumers := AList.update i
                                    \<lparr>c_id = i, c_producerId = pid, c_paused = True\<rparr> (consumers u)\<rparr>))))))"

definition resumeConsumer :: "engine \<Rightarrow> voice_service \<Rightarrow> string \<Rightarrow> string \<Rightarrow> string \<Rightarrow> unit outcome" where
  "resumeConsumer eng s rid uid cid =
     (case map_of (voiceRooms s) rid of
        None \<Rightarrow> (Inl VoiceRoomNotFound, s)
      | Some vr \<Rightarrow>
          (case map_of (vr_users vr) uid of
             None \<Rightarrow> (Inl UserNotFound, s)
           | Some u \<Rightarrow>
               (case map_of (consumers u) cid of
                  None \<Rightarrow> (Inl ConsumerNotFound, s)
                | Some c \<Rightarrow>
                    (case engine_request eng s (ConsumerResume (c_id c)) of
                       (None, s1) \<Rightarrow> (Inl EngineRejected, s1)
                     | (Some _, s1) \<Rightarrow>
                         (Inr (),
                          put_user s1 rid vr uid
                            (u\<lparr>consumers := AList.update cid (c\<lparr>c_paused := False\<rparr>) (consumers u)\<rparr>))))))"

record voice_user_info =
  vi_userId :: string
  vi_userName :: string
  vi_isMuted :: bool
  vi_hasProducer :: bool

definition user_info :: "voice_user \<Rightarrow> voice_user_info" where
  "user_info u =
     \<lparr>vi_userId = userId u, vi_userName = userName u, vi_isMuted = isMuted u,
      vi_hasProducer = (producer u \<noteq> None)\<rparr>"

definition joinVoiceChannel ::
  "engine \<Rightarrow> voice_service \<Rightarrow> string \<Rightarrow> string \<Rightarrow> string \<Rightarrow> voice_user_info list outcome" where
  "joinVoiceChannel eng s rid uid uname =
     (case getOrCreateRouter eng s rid of
        (Inl e, s1) \<Rightarrow> (Inl e, s1)
      | (Inr rt, s1) \<Rightarrow>
          (case map_of (voiceRooms s1) rid of
             None \<Rightarrow> (Inl VoiceRoomNotFound, s1)
           | Some vr \<Rightarrow>
               (let vr' =
                      (if \<not> has_key (vr_users vr) uid
                       then vr\<lparr>vr_users := AList.update uid
                              \<lparr>userId = uid, userName = uname, producerTransport = None,
                               consumerTransport = None, producer = None, consumers = [],
                               isMuted = False\<rparr> (vr_users vr)\<rparr>
                       else vr)
                in (Inr (map (user_info \<circ> snd) (vr_users vr')),
                    s1\<lparr>voiceRooms := AList.update rid vr' (voiceRooms s1)\<rparr>))))"

text \<open>
  The closing calls of \<^verbatim>\<open>leaveVoiceChannel\<close> for one user, in the order of the code:
  the producer, every consumer, the send transport, the receive transport.
\<close>

definition close_user :: "voice_service \<Rightarrow> voice_user \<Rightarrow> voice_service" where
  "close_user s u =
     (let s1 = (case producer u of Some p \<Rightarrow> engine_close s (ProducerClose (p_id p)) | None \<Rightarrow> s);
          s2 = foldl (\<lambda>st c. engine_close st (ConsumerClose (c_id c))) s1 (map snd (consumers u));
          s3 = (case producerTransport u of Some t \<Rightarrow> engine_close s2 (TransportClose (t_id t)) | None \<Rightarrow> s2)
      in (case consumerTransport u of Some t \<Rightarrow> engine_close s3 (TransportClose (t_id t)) | None \<Rightarrow> s3))"

text \<open>The method returns nothing and never throws.\<close>

definition leaveVoiceChannel :: "voice_service \<Rightarrow> string \<Rightarrow> string \<Rightarrow> voice_service" where
  "leaveVoiceChannel s rid uid =
     (case map_of (voiceRooms s) rid of
        None \<Rightarrow> s
      | Some vr \<Rightarrow>
          (let vr1 = (case map_of (vr_users vr) uid of
                        None \<Rightarrow> vr
                      | Some u \<Rightarrow> vr\<lparr>vr_users := AList.delete uid (vr_users vr)\<rparr>);
               s1 = (case map_of (vr_users vr) uid of
                       None \<Rightarrow> s
                     | Some u \<Rightarrow>
                         (close_user s u)\<lparr>voiceRooms := AList.update rid vr1 (voiceRooms s)\<rparr>)
           in if vr_users vr1 = []
              then (engine_close s1 (RouterClose (r_id (vr_router vr1))))
                     \<lparr>voiceRooms := AList.delete rid (voiceRooms s1)\<rparr>
              else s1))"

text \<open>
  \<^verbatim>\<open>user.isMuted = isMuted\<close> comes before the awaited \<^verbatim>\<open>pause()\<close> or \<^verbatim>\<open>resume()\<close>.
\<close>

definition toggleMute :: "engine \<Rightarrow> voice_service \<Rightarrow> string \<Rightarrow> string \<Rightarrow> bool \<Rightarrow> bool outcome" where
  "toggleMute eng s rid uid muted =
     (case map_of (voiceRooms s) rid of
        None \<Rightarrow> (Inl VoiceRoomNotFound, s)
      | Some vr \<Rightarrow>
          (case map_of (vr_users vr) uid of
             None \<Rightarrow> (Inl UserNotFoundInVoiceRoom, s)
           | Some u \<Rightarrow>
               (let s1 = put_user s rid vr uid (u\<lparr>isMuted := muted\<rparr>)
                in case producer u of
                     None \<Rightarrow> (Inr muted, s1)
                   | Some p \<Rightarrow>
                       (case engine_request eng s1
                               (if muted then ProducerPause (p_id p) else ProducerResume (p_id p)) of
                          (None, s2) \<Rightarrow> (Inl EngineRejected, s2)
                        | (Some _, s2) \<Rightarrow>
                            (Inr muted,
                             put_user s2 rid vr uid
                               (u\<lparr>isMuted := muted, producer := Some (p\<lparr>p_paused := muted\<rparr>)\<rparr>))))))"

record producer_info =
  pi_userId :: string
  pi_userName :: string
  pi_producerId :: string

fun producers_except :: "string \<Rightarrow> (string \<times> voice_user) list \<Rightarrow> producer_info list" where
  "producers_except uid [] = []"
| "producers_except uid ((k, u) # rest) =
     (case producer u of
        Some p \<Rightarrow>
          if k \<noteq> uid
          then \<lparr>pi_userId = k, pi_userName = userName u, pi_producerId = p_id p\<rparr> # producers_except uid rest
          else producers_except uid rest
      | None \<Rightarrow> producers_except uid rest)"

definition getProducersForUser :: "voice_service \<Rightarrow> string \<Rightarrow> string \<Rightarrow> producer_info list" where
  "getProducersForUser s rid uid =
     (case map_of (voiceRooms s) rid of None \<Rightarrow> [] | Some vr \<Rightarrow> producers_except uid (vr_users vr))"

definition getVoiceUsers :: "voice_service \<Rightarrow> string \<Rightarrow> voice_user_info list" where
  "getVoiceUsers s rid =
     (case map_of (voiceRooms s) rid of None \<Rightarrow> [] | Some vr \<Rightarrow> map (user_info \<circ> snd) (vr_users vr))"

text \<open>An engine that rejects nothing, reports every producer consumable, and numbers its objects.\<close>

definition willing_engine :: engine where
  "willing_engine =
     \<lparr>new_id = (\<lambda>n. CHR ''#'' # replicate n CHR ''i''), rejects = (\<lambda>_. False),
      canConsume = (\<lambda>_ _ _. True), rtpCapabilities = (\<lambda>_. ''opus'')\<rparr>"

text \<open>Looking a participant up: \<^verbatim>\<open>this.voiceRooms.get(roomId)?.users.get(userId)\<close>.\<close>

definition get_user :: "voice_service \<Rightarrow> string \<Rightarrow> string \<Rightarrow> voice_user option" where
  "get_user s rid uid =
     (case map_of (voiceRooms s) rid of None \<Rightarrow> None | Some vr \<Rightarrow> map_of (vr_users vr) uid)"

text \<open>A call failed with a not-found error and left the state \<open>s\<close> as it was.\<close>

definition not_found_unchanged :: "'a outcome \<Rightarrow> voice_service \<Rightarrow> bool" where
  "not_found_unchanged out s =
     (case fst out of Inl e \<Rightarrow> is_not_found e \<and> snd out = s | Inr _ \<Rightarrow> False)"

definition succeeded :: "'a outcome \<Rightarrow> bool" where
  "succeeded out = (case fst out of Inl _ \<Rightarrow> False | Inr _ \<Rightarrow> True)"

text \<open>
  Two states used as examples. In the first, \<open>A\<close> has joined \<open>r1\<close>, created a send
  transport, produced, and created a receive transport, and \<open>B\<close> has joined and created
  a receive transport. In the second, \<open>A\<close> has joined, created a send transport and
  muted.
\<close>

definition call_scenario :: voice_service where
  "call_scenario =
     (let s1 = snd (joinVoiceChannel willing_engine voice_service_init ''r1'' ''A'' ''Ann'');
          s2 = snd (createWebRtcTransport willing_engine s1 ''r1'' ''A'' Send);
          s3 = snd (produce willing_engine s2 ''r1'' ''A'' ''#i'' Audio ''rtp'');
          s4 = snd (createWebRtcTransport willing_engine s3 ''r1'' ''A'' Recv);
          s5 = snd (joinVoiceChannel willing_engine s4 ''r1'' ''B'' ''Bob'')
      in snd (createWebRtcTransport willing_engine s5 ''r1'' ''B'' Recv))"

definition muted_scenario :: voice_service where
  "muted_scenario =
     (let s1 = snd (joinVoiceChannel willing_engine voice_service_init ''r1'' ''A'' ''Ann'');
          s2 = snd (createWebRtcTransport willing_engine s1 ''r1'' ''A'' Send)
      in snd (toggleMute willing_engine s2 ''r1'' ''A'' True))"

text \<open>
  The calls that lead to the first example state, for any engine, and an engine that
  accepts its first five calls and rejects every later one.
\<close>

definition call_scenario_of :: "engine \<Rightarrow> voice_service" where
  "call_scenario_of eng =
     (let s1 = snd (joinVoiceChannel eng voice_service_init ''r1'' ''A'' ''Ann'');
          s2 = snd (createWebRtcTransport eng s1 ''r1'' ''A'' Send);
          s3 = snd (produce eng s2 ''r1'' ''A'' ''#i'' Audio ''rtp'');
          s4 = snd (createWebRtcTransport eng s3 ''r1'' ''A'' Recv);
          s5 = snd (joinVoiceChannel eng s4 ''r1'' ''B'' ''Bob'')
      in snd (createWebRtcTransport eng s5 ''r1'' ''B'' Recv))"

definition late_rejecting_engine :: engine where
  "late_rejecting_engine =
     \<lparr>new_id = (\<lambda>n. CHR ''#'' # replicate n CHR ''i''), rejects = (\<lambda>n. 5 \<le> n),
      canConsume = (\<lambda>_ _ _. True), rtpCapabilities = (\<lambda>_. ''opus'')\<rparr>"






text \<open>Every room in the table has at least one participant.\<close>

definition rooms_nonempty :: "voice_service \<Rightarrow> bool" where
  "rooms_nonempty s = list_all (\<lambda>p. vr_users (snd p) \<noteq> []) (voiceRooms s)"

section \<open>Properties of the room registry\<close>

lemma createRoom_present:
  "has_key (rooms s) rid \<Longrightarrow> createRoom s rid creator priv pw = s"
  by (simp add: createRoom_def)

lemma update_absent_append:
  "map_of al k = None \<Longrightarrow> AList.update k v al = al @ [(k, v)]"
  by (induction al) (auto split: if_splits)

lemma createRoom_absent:
  "\<not> has_key (rooms s) rid \<Longrightarrow>
   rooms (createRoom s rid creator priv pw) =
     rooms s @ [(rid, \<lparr>users = [], messages = [], isPrivate = priv, password = pw,
                      allowedUsers = {}, creatorId = creator\<rparr>)]"
  by (simp add: createRoom_def has_key_def update_absent_append)

lemma filter_absent_key:
  "map_of al k = None \<Longrightarrow> filter (\<lambda>p. fst p = k) al = []"
  by (induction al) (auto split: if_splits)

text \<open>
  C8. \<^verbatim>\<open>createRoom\<close> is idempotent. On a registry that has the name already the call
  changes nothing at all (so messages and membership stay as they are). Two calls with a
  name that was new give the same registry as the first call alone, with exactly one entry
  under the name, which carries the creator, visibility and password of the first call
  and has no messages, members or allowed users.
\<close>

theorem createRoom_idempotent:
  "(has_key (rooms s) rid \<longrightarrow> createRoom s rid c2 p2 pw2 = s) \<and>
   (\<not> has_key (rooms s) rid \<longrightarrow>
      createRoom (createRoom s rid c1 p1 pw1) rid c2 p2 pw2 = createRoom s rid c1 p1 pw1 \<and>
      filter (\<lambda>p. fst p = rid) (rooms (createRoom (createRoom s rid c1 p1 pw1) rid c2 p2 pw2)) =
        [(rid, \<lparr>users = [], messages = [], isPrivate = p1, password = pw1,
                allowedUsers = {}, creatorId = c1\<rparr>)] \<and>
      getRoom (createRoom (createRoom s rid c1 p1 pw1) rid c2 p2 pw2) rid =
        Some \<lparr>users = [], messages = [], isPrivate = p1, password = pw1,
              allowedUsers = {}, creatorId = c1\<rparr>)"
proof (intro conjI impI)
  assume "has_key (rooms s) rid"
  then show "createRoom s rid c2 p2 pw2 = s" by (rule createRoom_present)
next
  assume absent: "\<not> has_key (rooms s) rid"
  let ?s1 = "createRoom s rid c1 p1 pw1"
  let ?r = "\<lparr>users = [], messages = [], isPrivate = p1, password = pw1,
             allowedUsers = {}, creatorId = c1\<rparr>"
  have r1: "rooms ?s1 = rooms s @ [(rid, ?r)]"
    using absent by (rule createRoom_absent)
  have none: "map_of (rooms s) rid = None"
    using absent by (simp add: has_key_def)
  have present: "has_key (rooms ?s1) rid"
    by (simp add: r1 has_key_def map_add_def none)
  show twice: "createRoom ?s1 rid c2 p2 pw2 = ?s1"
    using present by (rule createRoom_present)
  show "filter (\<lambda>p. fst p = rid) (rooms (createRoom ?s1 rid c2 p2 pw2)) = [(rid, ?r)]"
    by (simp add: twice r1 filter_absent_key [OF none])
  show "getRoom (createRoom ?s1 rid c2 p2 pw2) rid = Some ?r"
    by (simp add: twice r1 getRoom_def map_add_def none)
qed

theorem createRoom_idempotent_witness:
  "has_key (rooms (createRoom chat_service_init ''general'' ''A'' False None)) ''general'' \<and>
   createRoom (createRoom chat_service_init ''general'' ''A'' False None) ''general'' ''B'' True (Some ''x'')
     = createRoom chat_service_init ''general'' ''A'' False None \<and>
   \<not> has_key (rooms chat_service_init) ''general'' \<and>
   getRoom (createRoom (createRoom chat_service_init ''general'' ''A'' False None)
              ''general'' ''B'' True (Some ''x'')) ''general'' =
     Some \<lparr>users = [], messages = [], isPrivate = False, password = None,
           allowedUsers = {}, creatorId = ''A''\<rparr>"
proof -
  have a: "\<not> has_key (rooms chat_service_init) ''general''"
    by (simp add: has_key_def chat_service_init_def)
  have b: "has_key (rooms (createRoom chat_service_init ''general'' ''A'' False None)) ''general''"
    by (simp add: has_key_def chat_service_init_def createRoom_def)
  from a b
    createRoom_idempotent [of chat_service_init "''general''" "''B''" True "Some ''x''" "''A''" False None]
    createRoom_idempotent [of "createRoom chat_service_init ''general'' ''A'' False None"
      "''general''" "''B''" True "Some ''x''" "''A''" False None]
  show ?thesis by simp
qed

text \<open>
  C10. Setting the display name to the empty string behaves as if it were unset: the
  resolved name is \<open>User\<close>, a space, and the first six characters of the connection id.
\<close>

theorem getUserName_empty_fallback:
  "getUserName (setUserName s uid []) uid = ''User '' @ take 6 uid"
  by (simp add: getUserName_def setUserName_def)

section \<open>Properties of the chat gateway\<close>

lemmas handler_defs =
  handleConnection_def handleDisconnect_def handleSetUserName_def
  handleCreateRoom_def handleGetRooms_def handleJoinRoom_def handleJoinRoom_admit_def
  handleLeaveRoom_def handleSendMessage_def handleAddUserToPrivateRoom_def
  handleRemoveRoom_def handleRemoveUserFromRoom_def emit_def

lemmas service_defs =
  createRoom_def setUserName_def removeRoom_def addUserToRoom_def removeUserFromRoom_def
  addMessage_def addUserToPrivateRoom_def

lemmas eval_defs =
  run_chat_def chat_gateway_init_def chat_service_init_def handler_defs service_defs
  has_key_def getRoom_def getRooms_def getRoomCreator_def getUserName_def roster_def
  canAccessRoom_def verifyRoomPassword_def isRoomCreator_def Let_def

subsection \<open>Disconnect\<close>

text \<open>
  \<^verbatim>\<open>userRooms\<close> is read by \<^verbatim>\<open>handleDisconnect\<close> and \<^verbatim>\<open>handleSetUserName\<close> and
  cleared by \<^verbatim>\<open>handleLeaveRoom\<close>, but no handler ever stores into it: it is empty in
  every state the gateway reaches, and the disconnect handler does nothing.
\<close>

lemma userRooms_chat_step: "userRooms g = Map.empty \<Longrightarrow> userRooms (chat_step g ev) = Map.empty"
  by (cases ev) (auto simp: handler_defs Let_def split: option.splits)

lemma userRooms_run_chat: "userRooms g = Map.empty \<Longrightarrow> userRooms (run_chat g es) = Map.empty"
  unfolding run_chat_def
  by (induction es arbitrary: g) (simp_all add: userRooms_chat_step)

lemma handleDisconnect_noop: "userRooms g = Map.empty \<Longrightarrow> handleDisconnect g c = g"
  by (simp add: handleDisconnect_def)

lemma handleDisconnect_never_cleans:
  "handleDisconnect (run_chat chat_gateway_init es) c = run_chat chat_gateway_init es"
  by (rule handleDisconnect_noop, rule userRooms_run_chat) (simp add: chat_gateway_init_def)

text \<open>
  C1 asks that a connection that joined a room through \<^verbatim>\<open>join_room\<close> and then
  disconnects is removed from the room's membership map, with a roster broadcast to the
  remaining members. Evaluated on the code: \<open>A\<close> creates the public room \<open>general\<close>,
  \<open>A\<close> and \<open>B\<close> join it, \<open>B\<close> disconnects. The roster of \<open>general\<close> still
  lists \<open>B\<close>, and the whole gateway state, its record of emitted events included, is
  what it was before the disconnect.
\<close>

theorem disconnect_after_join_keeps_member:
  "map ru_id (roster (getRoom (chatService (run_chat chat_gateway_init
       [Connect ''A'', Connect ''B'', CreateRoom ''A'' ''general'' None None,
        JoinRoom ''A'' ''general'' None, JoinRoom ''B'' ''general'' None,
        Disconnect ''B''])) ''general'')) = [''A'', ''B''] \<and>
   run_chat chat_gateway_init
       [Connect ''A'', Connect ''B'', CreateRoom ''A'' ''general'' None None,
        JoinRoom ''A'' ''general'' None, JoinRoom ''B'' ''general'' None,
        Disconnect ''B''] =
   run_chat chat_gateway_init
       [Connect ''A'', Connect ''B'', CreateRoom ''A'' ''general'' None None,
        JoinRoom ''A'' ''general'' None, JoinRoom ''B'' ''general'' None]"
  by (simp add: eval_defs)

subsection \<open>Access to private rooms\<close>

text \<open>
  \<^verbatim>\<open>canAccessRoom\<close> looks at the allow-list only. \<^verbatim>\<open>handleCreateRoom\<close>, the only
  caller of \<^verbatim>\<open>createRoom\<close>, puts the creator on the allow-list of a private room in
  the same event, and nothing takes an entry off an allow-list or changes a creator, so
  in every state of the gateway the creator of a private room is on its allow-list.
\<close>

lemma creator_allowed_step:
  "creator_allowed (chatService g) \<Longrightarrow> creator_allowed (chatService (chat_step g ev))"
  unfolding creator_allowed_def
  by (cases ev)
     (auto simp: handler_defs service_defs has_key_def Let_def AList.update_conv' AList.delete_conv'
        getRoom_def isRoomCreator_def canAccessRoom_def verifyRoomPassword_def
        split: option.splits if_splits)

lemma creator_allowed_run:
  "creator_allowed (chatService g) \<Longrightarrow> creator_allowed (chatService (run_chat g es))"
  unfolding run_chat_def
  by (induction es arbitrary: g) (simp_all add: creator_allowed_step)

lemma creator_allowed_init: "creator_allowed (chatService chat_gateway_init)"
  by (simp add: creator_allowed_def chat_gateway_init_def chat_service_init_def)

lemma canAccessRoom_allow_list:
  "getRoom s rid = Some r \<Longrightarrow> isPrivate r \<Longrightarrow> canAccessRoom s rid uid = (uid \<in> allowedUsers r)"
  by (simp add: canAccessRoom_def getRoom_def)

text \<open>
  C2. For every private room that exists after any sequence of gateway events and every
  connection id, \<^verbatim>\<open>canAccessRoom\<close> is true if and only if the room's allow-list
  contains the connection or the room's stored creator is the connection.
\<close>

theorem canAccessRoom_private_iff:
  assumes "getRoom (chatService (run_chat chat_gateway_init es)) rid = Some r"
    and "isPrivate r"
  shows "canAccessRoom (chatService (run_chat chat_gateway_init es)) rid uid
           \<longleftrightarrow> (uid \<in> allowedUsers r \<or> creatorId r = uid)"
proof -
  have "creator_allowed (chatService (run_chat chat_gateway_init es))"
    by (rule creator_allowed_run [OF creator_allowed_init])
  then have "creatorId r \<in> allowedUsers r"
    using assms by (simp add: creator_allowed_def getRoom_def)
  then show ?thesis
    using assms by (auto simp: canAccessRoom_def getRoom_def)
qed


theorem canAccessRoom_private_iff_witness:
  "getRoom (chatService (run_chat chat_gateway_init
      [CreateRoom ''A'' ''secret'' (Some True) (Some ''x'')])) ''secret'' =
     Some \<lparr>users = [], messages = [], isPrivate = True, password = Some ''x'',
           allowedUsers = {''A''}, creatorId = ''A''\<rparr> \<and>
   canAccessRoom (chatService (run_chat chat_gateway_init
      [CreateRoom ''A'' ''secret'' (Some True) (Some ''x'')])) ''secret'' ''A'' \<and>
   \<not> canAccessRoom (chatService (run_chat chat_gateway_init
      [CreateRoom ''A'' ''secret'' (Some True) (Some ''x'')])) ''secret'' ''B''"
proof -
  let ?es = "[CreateRoom ''A'' ''secret'' (Some True) (Some ''x'')]"
  let ?r = "\<lparr>users = [], messages = [], isPrivate = True, password = Some ''x'',
           allowedUsers = {''A''}, creatorId = ''A''\<rparr>"
  have room: "getRoom (chatService (run_chat chat_gateway_init ?es)) ''secret'' = Some ?r"
    by (simp add: eval_defs)
  have priv: "isPrivate ?r" by simp
  show ?thesis
    using room canAccessRoom_private_iff [OF room priv, of "''A''"]
      canAccessRoom_private_iff [OF room priv, of "''B''"]
    by simp
qed

subsection \<open>Joining a private room with a password\<close>

lemma allowed_in_step:
  "allowed_in (chatService g) rid c \<Longrightarrow> \<not> removes_room g rid ev \<Longrightarrow>
   allowed_in (chatService (chat_step g ev)) rid c"
  unfolding allowed_in_def
  by (cases ev)
     (auto simp: handler_defs service_defs has_key_def Let_def AList.update_conv' AList.delete_conv'
        getRoom_def isRoomCreator_def canAccessRoom_def verifyRoomPassword_def
        split: option.splits if_splits)

lemma allowed_in_run:
  "allowed_in (chatService g) rid c \<Longrightarrow> room_kept g rid es \<Longrightarrow>
   allowed_in (chatService (run_chat g es)) rid c"
  unfolding run_chat_def
  by (induction es arbitrary: g) (simp_all add: allowed_in_step)

lemma allowed_join_admit:
  "allowed_in (chatService g) rid c \<Longrightarrow> handleJoinRoom g c rid p = handleJoinRoom_admit g c rid"
  by (auto simp: allowed_in_def handleJoinRoom_def getRoom_def canAccessRoom_def split: option.splits)

lemma admit_member:
  "has_key (rooms (chatService g)) rid \<Longrightarrow> is_member (chatService (handleJoinRoom_admit g c rid)) rid c"
  by (auto simp: is_member_def handleJoinRoom_admit_def emit_def addUserToRoom_def has_key_def
        AList.update_conv' Let_def split: option.splits)

lemma admit_allowed:
  "allowed_in (chatService g) rid c \<Longrightarrow> allowed_in (chatService (handleJoinRoom_admit g c rid)) rid c"
  by (auto simp: allowed_in_def handleJoinRoom_admit_def emit_def addUserToRoom_def
        AList.update_conv' Let_def split: option.splits)

lemma allowed_has_key: "allowed_in s rid c \<Longrightarrow> has_key (rooms s) rid"
  by (auto simp: allowed_in_def has_key_def split: option.splits)

lemma password_join_grants:
  assumes "getRoom (chatService g) rid = Some r" "isPrivate r" "password r = Some pw" "pw \<noteq> []"
    "c \<notin> allowedUsers r"
  shows "handleJoinRoom g c rid (Some pw) =
           handleJoinRoom_admit (g\<lparr>chatService := snd (addUserToPrivateRoom (chatService g) rid c)\<rparr>) c rid"
    and "allowed_in (snd (addUserToPrivateRoom (chatService g) rid c)) rid c"
  using assms
  by (auto simp: handleJoinRoom_def getRoom_def canAccessRoom_def verifyRoomPassword_def
        allowed_in_def addUserToPrivateRoom_def AList.update_conv')

lemma wrong_password_unauthorized:
  assumes "getRoom (chatService g) rid = Some r" "isPrivate r" "password r = Some pw"
    "c \<notin> allowedUsers r" "p \<noteq> Some pw"
  shows "handleJoinRoom g c rid p = emit g (ToClient c) (ErrorEvent ''Unauthorized'')"
  using assms
  by (auto simp: handleJoinRoom_def getRoom_def canAccessRoom_def verifyRoomPassword_def
        split: option.splits)

text \<open>
  C6 as stated fails on the code in two places. A private room whose stored password is
  the empty string cannot be joined with that exact password: \<^verbatim>\<open>handleJoinRoom\<close> tests
  \<^verbatim>\<open>password && ...\<close>, and the empty string is falsy. And a grant lasts as long as the
  room does: once the creator has removed the room, a room of the same name is a new one
  with a new allow-list, and the connection's next join without a password is refused.
\<close>

theorem empty_password_join_refused:
  "getRoom (chatService (run_chat chat_gateway_init [CreateRoom ''A'' ''secret'' (Some True) (Some [])])) ''secret''
     = Some \<lparr>users = [], messages = [], isPrivate = True, password = Some [],
             allowedUsers = {''A''}, creatorId = ''A''\<rparr> \<and>
   handleJoinRoom (run_chat chat_gateway_init [CreateRoom ''A'' ''secret'' (Some True) (Some [])])
       ''B'' ''secret'' (Some []) =
     emit (run_chat chat_gateway_init [CreateRoom ''A'' ''secret'' (Some True) (Some [])])
       (ToClient ''B'') (ErrorEvent ''Unauthorized'') \<and>
   last (outbox (run_chat chat_gateway_init
       [CreateRoom ''A'' ''secret'' (Some True) (Some ''x''), JoinRoom ''B'' ''secret'' (Some ''x''),
        RemoveRoom ''A'' ''secret'', CreateRoom ''A'' ''secret'' (Some True) (Some ''x''),
        JoinRoom ''B'' ''secret'' None])) = (ToClient ''B'', ErrorEvent ''Unauthorized'')"
  by (simp add: eval_defs)

text \<open>
  C6, amended. Take a private room stored with a non-empty password and a connection that
  is not on its allow-list. A \<^verbatim>\<open>join_room\<close> with no password or any other password
  leaves the registry as it was and emits \<open>Unauthorized\<close> to the connection. A
  \<^verbatim>\<open>join_room\<close> with the stored password makes the connection a member and puts it on
  the allow-list. After any further events along which the room is not removed, that is,
  none of them a \<^verbatim>\<open>remove_room\<close> of that name sent by the room's creator (a
  \<^verbatim>\<open>remove_room\<close> by anyone else is refused and may occur), the connection is still on
  the allow-list and a \<^verbatim>\<open>join_room\<close> by it without a
  password is admitted and makes it a member.
\<close>

theorem private_room_password_join:
  assumes room: "getRoom (chatService g) rid = Some r" and priv: "isPrivate r"
    and stored: "password r = Some pw" and nonempty: "pw \<noteq> []"
    and outsider: "c \<notin> allowedUsers r"
  shows "(p \<noteq> Some pw \<longrightarrow>
            chatService (handleJoinRoom g c rid p) = chatService g \<and>
            outbox (handleJoinRoom g c rid p) = outbox g @ [(ToClient c, ErrorEvent ''Unauthorized'')]) \<and>
         is_member (chatService (handleJoinRoom g c rid (Some pw))) rid c \<and>
         allowed_in (chatService (handleJoinRoom g c rid (Some pw))) rid c \<and>
         (room_kept (handleJoinRoom g c rid (Some pw)) rid es \<longrightarrow>
            allowed_in (chatService (run_chat (handleJoinRoom g c rid (Some pw)) es)) rid c \<and>
            handleJoinRoom (run_chat (handleJoinRoom g c rid (Some pw)) es) c rid None =
              handleJoinRoom_admit (run_chat (handleJoinRoom g c rid (Some pw)) es) c rid \<and>
            is_member (chatService
              (handleJoinRoom (run_chat (handleJoinRoom g c rid (Some pw)) es) c rid None)) rid c)"
proof -
  let ?g1 = "handleJoinRoom g c rid (Some pw)"
  let ?ga = "g\<lparr>chatService := snd (addUserToPrivateRoom (chatService g) rid c)\<rparr>"
  have refused: "p \<noteq> Some pw \<Longrightarrow> handleJoinRoom g c rid p = emit g (ToClient c) (ErrorEvent ''Unauthorized'')"
    using room priv stored outsider by (rule wrong_password_unauthorized)
  have g1: "?g1 = handleJoinRoom_admit ?ga c rid"
    using room priv stored nonempty outsider by (rule password_join_grants(1))
  have ga: "allowed_in (chatService ?ga) rid c"
    using password_join_grants(2) [OF room priv stored nonempty outsider] by simp
  have allowed1: "allowed_in (chatService ?g1) rid c"
    unfolding g1 using ga by (rule admit_allowed)
  have member1: "is_member (chatService ?g1) rid c"
    unfolding g1 using allowed_has_key [OF ga] by (rule admit_member)
  have later: "allowed_in (chatService (run_chat ?g1 es)) rid c \<and>
      handleJoinRoom (run_chat ?g1 es) c rid None = handleJoinRoom_admit (run_chat ?g1 es) c rid \<and>
      is_member (chatService (handleJoinRoom (run_chat ?g1 es) c rid None)) rid c"
    if kept: "room_kept (handleJoinRoom g c rid (Some pw)) rid es"
  proof -
    have a: "allowed_in (chatService (run_chat ?g1 es)) rid c"
      using allowed1 kept by (rule allowed_in_run)
    have b: "handleJoinRoom (run_chat ?g1 es) c rid None = handleJoinRoom_admit (run_chat ?g1 es) c rid"
      using a by (rule allowed_join_admit)
    have "is_member (chatService (handleJoinRoom_admit (run_chat ?g1 es) c rid)) rid c"
      using allowed_has_key [OF a] by (rule admit_member)
    with a b show ?thesis by simp
  qed
  show ?thesis
    using refused allowed1 member1 later by (auto simp: emit_def)
qed

theorem private_room_password_join_witness:
  "getRoom (chatService (run_chat chat_gateway_init
      [CreateRoom ''A'' ''secret'' (Some True) (Some ''x'')])) ''secret'' =
     Some \<lparr>users = [], messages = [], isPrivate = True, password = Some ''x'',
           allowedUsers = {''A''}, creatorId = ''A''\<rparr> \<and>
   outbox (handleJoinRoom (run_chat chat_gateway_init
      [CreateRoom ''A'' ''secret'' (Some True) (Some ''x'')]) ''B'' ''secret'' None) =
     [(ToAll, RoomCreated ''secret'' True ''A''), (ToClient ''B'', ErrorEvent ''Unauthorized'')] \<and>
   is_member (chatService (handleJoinRoom (run_chat chat_gateway_init
      [CreateRoom ''A'' ''secret'' (Some True) (Some ''x'')]) ''B'' ''secret'' (Some ''x''))) ''secret'' ''B'' \<and>
   is_member (chatService (handleJoinRoom (run_chat (handleJoinRoom (run_chat chat_gateway_init
      [CreateRoom ''A'' ''secret'' (Some True) (Some ''x'')]) ''B'' ''secret'' (Some ''x''))
      [RemoveRoom ''B'' ''secret'', LeaveRoom ''B'' ''secret'', Disconnect ''B''])
      ''B'' ''secret'' None)) ''secret'' ''B''"
proof -
  let ?g = "run_chat chat_gateway_init [CreateRoom ''A'' ''secret'' (Some True) (Some ''x'')]"
  let ?r = "\<lparr>users = [], messages = [], isPrivate = True, password = Some ''x'',
           allowedUsers = {''A''}, creatorId = ''A''\<rparr>"
  let ?es = "[RemoveRoom ''B'' ''secret'', LeaveRoom ''B'' ''secret'', Disconnect ''B'']"
  have room: "getRoom (chatService ?g) ''secret'' = Some ?r"
    by (simp add: eval_defs)
  have out: "outbox ?g = [(ToAll, RoomCreated ''secret'' True ''A'')]"
    by (simp add: eval_defs)
  have kept: "room_kept (handleJoinRoom ?g ''B'' ''secret'' (Some ''x'')) ''secret'' ?es"
    by (simp add: eval_defs)
  have "?r \<in> {r. isPrivate r \<and> password r = Some ''x'' \<and> ''x'' \<noteq> [] \<and> ''B'' \<notin> allowedUsers r}"
    by simp
  then have h: "isPrivate ?r" "password ?r = Some ''x''" "''x'' \<noteq> []" "''B'' \<notin> allowedUsers ?r"
    by simp_all
  have ne: "None \<noteq> Some ''x''" by simp
  note T = private_room_password_join [OF room h, of None ?es]
  from T ne have refused:
    "outbox (handleJoinRoom ?g ''B'' ''secret'' None) =
       outbox ?g @ [(ToClient ''B'', ErrorEvent ''Unauthorized'')]"
    by blast
  from T have m1: "is_member (chatService (handleJoinRoom ?g ''B'' ''secret'' (Some ''x''))) ''secret'' ''B''"
    by blast
  from T kept have m2: "is_member (chatService (handleJoinRoom
      (run_chat (handleJoinRoom ?g ''B'' ''secret'' (Some ''x'')) ?es) ''B'' ''secret'' None)) ''secret'' ''B''"
    by blast
  from refused out have refused':
    "outbox (handleJoinRoom ?g ''B'' ''secret'' None) =
       [(ToAll, RoomCreated ''secret'' True ''A''), (ToClient ''B'', ErrorEvent ''Unauthorized'')]"
    by simp
  from room refused' m1 m2 show ?thesis by blast
qed

section \<open>Properties of the voice service\<close>

lemmas voice_defs =
  getOrCreateRouter_def getRouterRtpCapabilities_def setUserTransport_def createWebRtcTransport_def
  find_transport_def connectWebRtcTransport_def new_producer_def produce_def consume_def
  resumeConsumer_def user_info_def joinVoiceChannel_def close_user_def leaveVoiceChannel_def
  toggleMute_def getProducersForUser_def getVoiceUsers_def engine_request_def engine_close_def
  put_user_def voice_service_init_def willing_engine_def get_user_def has_key_def
  not_found_unchanged_def succeeded_def

lemma get_user_put_user: "get_user (put_user s rid vr uid u) rid uid = Some u"
  by (simp add: get_user_def put_user_def AList.update_conv')

lemma engine_log_put_user: "engine_log (put_user s rid vr uid u) = engine_log s"
  by (simp add: put_user_def)

lemma call_scenario_eval:
  "call_scenario =
    \<lparr>voiceRooms =
       [(''r1'',
         \<lparr>vr_roomId = ''r1'', vr_router = \<lparr>r_id = ''#''\<rparr>,
          vr_users =
            [(''A'', \<lparr>userId = ''A'', userName = ''Ann'',
                      producerTransport = Some \<lparr>t_id = ''#i''\<rparr>,
                      consumerTransport = Some \<lparr>t_id = ''#iii''\<rparr>,
                      producer = Some \<lparr>p_id = ''#ii'', p_kind = Audio, p_paused = False\<rparr>,
                      consumers = [], isMuted = False\<rparr>),
             (''B'', \<lparr>userId = ''B'', userName = ''Bob'',
                      producerTransport = None,
                      consumerTransport = Some \<lparr>t_id = ''#iiii''\<rparr>,
                      producer = None, consumers = [], isMuted = False\<rparr>)]\<rparr>)],
     engine_log =
       [CreateRouter, CreateWebRtcTransport ''#'', TransportProduce ''#i'' Audio ''rtp'' None,
        CreateWebRtcTransport ''#'', CreateWebRtcTransport ''#'']\<rparr>"
  by (simp add: call_scenario_def voice_defs Let_def)

lemma muted_scenario_eval:
  "muted_scenario =
    \<lparr>voiceRooms =
       [(''r1'',
         \<lparr>vr_roomId = ''r1'', vr_router = \<lparr>r_id = ''#''\<rparr>,
          vr_users =
            [(''A'', \<lparr>userId = ''A'', userName = ''Ann'',
                      producerTransport = Some \<lparr>t_id = ''#i''\<rparr>,
                      consumerTransport = None,
                      producer = None, consumers = [], isMuted = True\<rparr>)]\<rparr>)],
     engine_log = [CreateRouter, CreateWebRtcTransport ''#'']\<rparr>"
  by (simp add: muted_scenario_def voice_defs Let_def)

lemma willing_accepts: "\<not> rejects willing_engine n"
  by (simp add: willing_engine_def)

subsection \<open>Calls that name something missing\<close>

text \<open>
  The methods that need a room and a participant look them up before they touch the state
  or the engine: \<^verbatim>\<open>connectWebRtcTransport\<close>, \<^verbatim>\<open>produce\<close>, \<^verbatim>\<open>consume\<close>,
  \<^verbatim>\<open>resumeConsumer\<close>, \<^verbatim>\<open>toggleMute\<close> and \<^verbatim>\<open>setUserTransport\<close> fail with the state
  exactly as before when the room is not in the table, when the room has no such
  participant, and when the participant has no transport with the given id (connect), no
  send transport (produce), no receive transport (consume) or no consumer with the given id
  (resume). \<^verbatim>\<open>leaveVoiceChannel\<close>, \<^verbatim>\<open>getProducersForUser\<close> and \<^verbatim>\<open>getVoiceUsers\<close> return
  normally on a room that is not in the table.
\<close>

lemma missing_reference_fails_unchanged:
  "(map_of (voiceRooms s) rid = None \<longrightarrow>
      connectWebRtcTransport eng s rid uid tid dtls = (Inl VoiceRoomNotFound, s) \<and>
      produce eng s rid uid tid kind rtp = (Inl VoiceRoomNotFound, s) \<and>
      consume eng s rid uid pid caps = (Inl VoiceRoomNotFound, s) \<and>
      resumeConsumer eng s rid uid cid = (Inl VoiceRoomNotFound, s) \<and>
      toggleMute eng s rid uid m = (Inl VoiceRoomNotFound, s) \<and>
      setUserTransport s rid uid t dir = (Inl VoiceRoomNotFound, s) \<and>
      leaveVoiceChannel s rid uid = s \<and>
      getProducersForUser s rid uid = [] \<and>
      getVoiceUsers s rid = []) \<and>
   (\<forall>vr. map_of (voiceRooms s) rid = Some vr \<and> map_of (vr_users vr) uid = None \<longrightarrow>
      connectWebRtcTransport eng s rid uid tid dtls = (Inl UserNotFound, s) \<and>
      produce eng s rid uid tid kind rtp = (Inl UserOrTransportNotFound, s) \<and>
      consume eng s rid uid pid caps =
        (Inl (if canConsume eng (r_id (vr_router vr)) pid caps
              then UserOrTransportNotFound else CannotConsume), s) \<and>
      resumeConsumer eng s rid uid cid = (Inl UserNotFound, s) \<and>
      toggleMute eng s rid uid m = (Inl UserNotFoundInVoiceRoom, s) \<and>
      setUserTransport s rid uid t dir = (Inl UserNotFound, s) \<and>
      (vr_users vr \<noteq> [] \<longrightarrow> leaveVoiceChannel s rid uid = s)) \<and>
   (\<forall>vr u. map_of (voiceRooms s) rid = Some vr \<and> map_of (vr_users vr) uid = Some u \<longrightarrow>
      (find_transport u tid = None \<longrightarrow>
         connectWebRtcTransport eng s rid uid tid dtls = (Inl TransportNotFound, s)) \<and>
      (producerTransport u = None \<longrightarrow>
         produce eng s rid uid tid kind rtp = (Inl UserOrTransportNotFound, s)) \<and>
      (\<not> canConsume eng (r_id (vr_router vr)) pid caps \<longrightarrow>
         consume eng s rid uid pid caps = (Inl CannotConsume, s)) \<and>
      (canConsume eng (r_id (vr_router vr)) pid caps \<and> consumerTransport u = None \<longrightarrow>
         consume eng s rid uid pid caps = (Inl UserOrTransportNotFound, s)) \<and>
      (map_of (consumers u) cid = None \<longrightarrow>
         resumeConsumer eng s rid uid cid = (Inl ConsumerNotFound, s)))"
  by (intro conjI allI impI; (elim conjE)?)
     (simp_all add: connectWebRtcTransport_def produce_def consume_def resumeConsumer_def
        toggleMute_def setUserTransport_def leaveVoiceChannel_def getProducersForUser_def
        getVoiceUsers_def)

text \<open>
  \<^verbatim>\<open>produce\<close> never reads its \<^verbatim>\<open>transportId\<close> argument: with an id that is neither of the
  participant's transports it produces on the send transport all the same.
\<close>

lemma produce_ignores_transportId:
  "map_option (\<lambda>u. find_transport u ''zz'') (get_user call_scenario ''r1'' ''A'') = Some None \<and>
   succeeded (produce willing_engine call_scenario ''r1'' ''A'' ''zz'' Audio ''rtp'')"
  by (simp add: call_scenario_eval voice_defs)

text \<open>
  C3 says that every operation invoked with a room or participant that does not exist
  fails with a not-found error and leaves the voice state exactly as it was, in particular
  that \<^verbatim>\<open>createTransport\<close> for an absent participant leaves no new state behind.
  Evaluated on the code, \<^verbatim>\<open>createWebRtcTransport\<close> does not do so. It begins with
  \<^verbatim>\<open>getOrCreateRouter\<close>, which inserts a room for a name it does not know, so that the
  \<open>Voice room not found\<close> test that follows can never fire; it then has the engine
  create a transport, and only \<^verbatim>\<open>setUserTransport\<close>, called last, looks for the
  participant. On the empty table the call for room \<open>r1\<close> and participant \<open>u1\<close> throws
  \<open>User not found\<close> and leaves a room \<open>r1\<close> without participants in the table and a
  transport in the engine. For a room that exists and a participant it does not have, the
  table is unchanged, but the transport has been created in the engine before the call
  fails.
\<close>

theorem createWebRtcTransport_unknown_room_mutates:
  "createWebRtcTransport willing_engine voice_service_init ''r1'' ''u1'' Send =
     (Inl UserNotFound,
      \<lparr>voiceRooms = [(''r1'', \<lparr>vr_roomId = ''r1'', vr_router = \<lparr>r_id = ''#''\<rparr>, vr_users = []\<rparr>)],
       engine_log = [CreateRouter, CreateWebRtcTransport ''#'']\<rparr>) \<and>
   \<not> not_found_unchanged (createWebRtcTransport willing_engine voice_service_init ''r1'' ''u1'' Send)
       voice_service_init \<and>
   get_user call_scenario ''r1'' ''C'' = None \<and>
   createWebRtcTransport willing_engine call_scenario ''r1'' ''C'' Send =
     (Inl UserNotFound,
      call_scenario\<lparr>engine_log := engine_log call_scenario @ [CreateWebRtcTransport ''#'']\<rparr>)"
  by (simp add: call_scenario_eval voice_defs)

subsection \<open>Rooms without participants\<close>




lemma rooms_nonempty_log [simp]:
  "rooms_nonempty (s\<lparr>engine_log := l\<rparr>) = rooms_nonempty s"
  by (simp add: rooms_nonempty_def)



























subsection \<open>Mute\<close>

text \<open>
  C5 as stated fails on the code: \<^verbatim>\<open>produce\<close> does not look at the participant's mute
  flag and passes no \<^verbatim>\<open>paused\<close> option to the engine. \<open>A\<close> joins \<open>r1\<close>, creates a send
  transport, mutes, and produces: the flag is still set and the new producer is running.
\<close>

theorem muted_then_produce_starts_unpaused:
  "map_option (\<lambda>u. (isMuted u, map_option p_paused (producer u)))
     (get_user
        (snd (produce willing_engine
           (snd (toggleMute willing_engine
              (snd (createWebRtcTransport willing_engine
                 (snd (joinVoiceChannel willing_engine voice_service_init ''r1'' ''A'' ''Ann''))
                 ''r1'' ''A'' Send))
              ''r1'' ''A'' True))
           ''r1'' ''A'' ''#i'' Audio ''rtp''))
        ''r1'' ''A'') = Some (True, Some False)"
  by (simp add: voice_defs)


lemma toggleMute_no_producer:
  assumes "map_of (voiceRooms s) rid = Some vr" "map_of (vr_users vr) uid = Some u" "producer u = None"
  shows "toggleMute eng s rid uid m = (Inr m, put_user s rid vr uid (u\<lparr>isMuted := m\<rparr>))"
  using assms by (simp add: toggleMute_def)

lemma toggleMute_producer:
  assumes "map_of (voiceRooms s) rid = Some vr" "map_of (vr_users vr) uid = Some u" "producer u = Some p"
    "\<not> rejects eng (length (engine_log s))"
  shows "toggleMute eng s rid uid m =
     (Inr m, put_user
        (s\<lparr>engine_log := engine_log s @ [if m then ProducerPause (p_id p) else ProducerResume (p_id p)]\<rparr>)
        rid vr uid (u\<lparr>isMuted := m, producer := Some (p\<lparr>p_paused := m\<rparr>)\<rparr>))"
  using assms by (simp add: toggleMute_def engine_request_def put_user_def)

lemma toggleMute_flag:
  assumes "map_of (voiceRooms s) rid = Some vr" "map_of (vr_users vr) uid = Some u"
  shows "map_option isMuted (get_user (snd (toggleMute eng s rid uid m)) rid uid) = Some m"
  using assms
  by (simp add: toggleMute_def engine_request_def put_user_def get_user_def AList.update_conv' Let_def
        split: option.splits)

lemma produce_unpaused:
  assumes "map_of (voiceRooms s) rid = Some vr" "map_of (vr_users vr) uid = Some u"
    "producerTransport u = Some t" "\<not> rejects eng (length (engine_log s))"
  shows "produce eng s rid uid tid kind rtp =
     (Inr (new_id eng (length (engine_log s))),
      put_user (s\<lparr>engine_log := engine_log s @ [TransportProduce (t_id t) kind rtp None]\<rparr>) rid vr uid
        (u\<lparr>producer := Some \<lparr>p_id = new_id eng (length (engine_log s)), p_kind = kind, p_paused = False\<rparr>\<rparr>))"
  using assms by (simp add: produce_def engine_request_def new_producer_def)

text \<open>
  C5, amended. For a participant of a room, \<^verbatim>\<open>toggleMute\<close> sets the mute flag to its
  argument, whether or not a producer exists and whatever the engine answers. With no
  producer it does nothing else and returns the flag. With a producer it asks the engine to
  pause it (mute) or resume it (unmute), and when the engine accepts, the producer's paused
  state is the flag. The flag is kept, but \<^verbatim>\<open>produce\<close> does not apply it: when the engine
  accepts, the participant is as before except for the new producer, which is not paused.
\<close>

theorem toggleMute_flag_not_applied_by_produce:
  assumes room: "map_of (voiceRooms s) rid = Some vr" and user: "map_of (vr_users vr) uid = Some u"
  shows "map_option isMuted (get_user (snd (toggleMute eng s rid uid m)) rid uid) = Some m \<and>
         (producer u = None \<longrightarrow>
            toggleMute eng s rid uid m = (Inr m, put_user s rid vr uid (u\<lparr>isMuted := m\<rparr>))) \<and>
         (\<forall>p. producer u = Some p \<and> \<not> rejects eng (length (engine_log s)) \<longrightarrow>
            toggleMute eng s rid uid m =
              (Inr m, put_user
                 (s\<lparr>engine_log := engine_log s @
                      [if m then ProducerPause (p_id p) else ProducerResume (p_id p)]\<rparr>)
                 rid vr uid (u\<lparr>isMuted := m, producer := Some (p\<lparr>p_paused := m\<rparr>)\<rparr>))) \<and>
         (\<forall>t. producerTransport u = Some t \<and> \<not> rejects eng (length (engine_log s)) \<longrightarrow>
            get_user (snd (produce eng s rid uid tid kind rtp)) rid uid =
              Some (u\<lparr>producer := Some \<lparr>p_id = new_id eng (length (engine_log s)), p_kind = kind,
                                        p_paused = False\<rparr>\<rparr>))"
proof (intro conjI allI impI)
  show "map_option isMuted (get_user (snd (toggleMute eng s rid uid m)) rid uid) = Some m"
    using room user by (rule toggleMute_flag)
next
  assume "producer u = None"
  with room user show "toggleMute eng s rid uid m = (Inr m, put_user s rid vr uid (u\<lparr>isMuted := m\<rparr>))"
    by (rule toggleMute_no_producer)
next
  fix p assume "producer u = Some p \<and> \<not> rejects eng (length (engine_log s))"
  with room user show "toggleMute eng s rid uid m =
              (Inr m, put_user
                 (s\<lparr>engine_log := engine_log s @
                      [if m then ProducerPause (p_id p) else ProducerResume (p_id p)]\<rparr>)
                 rid vr uid (u\<lparr>isMuted := m, producer := Some (p\<lparr>p_paused := m\<rparr>)\<rparr>))"
    by (simp add: toggleMute_producer)
next
  fix t assume "producerTransport u = Some t \<and> \<not> rejects eng (length (engine_log s))"
  with room user show "get_user (snd (produce eng s rid uid tid kind rtp)) rid uid =
              Some (u\<lparr>producer := Some \<lparr>p_id = new_id eng (length (engine_log s)), p_kind = kind,
                                        p_paused = False\<rparr>\<rparr>)"
    by (simp add: produce_unpaused get_user_put_user)
qed

theorem toggleMute_flag_not_applied_by_produce_witness:
  "map_option isMuted (get_user muted_scenario ''r1'' ''A'') = Some True \<and>
   map_option (\<lambda>u. (isMuted u, map_option p_paused (producer u)))
     (get_user (snd (produce willing_engine muted_scenario ''r1'' ''A'' ''#i'' Audio ''rtp'')) ''r1'' ''A'')
     = Some (True, Some False) \<and>
   map_option (\<lambda>u. (isMuted u, map_option p_paused (producer u)))
     (get_user (snd (toggleMute willing_engine call_scenario ''r1'' ''A'' True)) ''r1'' ''A'')
     = Some (True, Some True) \<and>
   map_option isMuted (get_user (snd (toggleMute willing_engine call_scenario ''r1'' ''B'' True)) ''r1'' ''B'')
     = Some True"
proof -
  obtain vr u t where
    vr: "map_of (voiceRooms muted_scenario) ''r1'' = Some vr" and
    u: "map_of (vr_users vr) ''A'' = Some u" and
    t: "producerTransport u = Some t" and m: "isMuted u"
    by (simp add: muted_scenario_eval)
  have acc: "\<not> rejects willing_engine (length (engine_log muted_scenario))"
    by (rule willing_accepts)
  note T = toggleMute_flag_not_applied_by_produce [OF vr u, where eng = willing_engine
      and tid = "''#i''" and kind = Audio and rtp = "''rtp''"]
  from T t acc have "get_user (snd (produce willing_engine muted_scenario ''r1'' ''A'' ''#i'' Audio ''rtp'')) ''r1'' ''A'' =
      Some (u\<lparr>producer := Some \<lparr>p_id = new_id willing_engine (length (engine_log muted_scenario)),
                                 p_kind = Audio, p_paused = False\<rparr>\<rparr>)"
    by blast
  then have a: "map_option (\<lambda>u. (isMuted u, map_option p_paused (producer u)))
     (get_user (snd (produce willing_engine muted_scenario ''r1'' ''A'' ''#i'' Audio ''rtp'')) ''r1'' ''A'')
     = Some (True, Some False)"
    using m by simp
  have b: "map_option isMuted (get_user muted_scenario ''r1'' ''A'') = Some True"
    by (simp add: get_user_def vr u m)
  obtain vr' u' p' where
    vr': "map_of (voiceRooms call_scenario) ''r1'' = Some vr'" and
    u': "map_of (vr_users vr') ''A'' = Some u'" and
    p': "producer u' = Some p'"
    by (simp add: call_scenario_eval)
  have acc': "\<not> rejects willing_engine (length (engine_log call_scenario))"
    by (rule willing_accepts)
  note T' = toggleMute_flag_not_applied_by_produce [OF vr' u', where eng = willing_engine and m = True]
  from T' p' acc' have "toggleMute willing_engine call_scenario ''r1'' ''A'' True =
      (Inr True, put_user
         (call_scenario\<lparr>engine_log := engine_log call_scenario @
              [if True then ProducerPause (p_id p') else ProducerResume (p_id p')]\<rparr>)
         ''r1'' vr' ''A'' (u'\<lparr>isMuted := True, producer := Some (p'\<lparr>p_paused := True\<rparr>)\<rparr>))"
    by blast
  then have c: "map_option (\<lambda>u. (isMuted u, map_option p_paused (producer u)))
     (get_user (snd (toggleMute willing_engine call_scenario ''r1'' ''A'' True)) ''r1'' ''A'')
     = Some (True, Some True)"
    by (simp add: get_user_put_user)
  obtain ub where ub: "map_of (vr_users vr') ''B'' = Some ub"
    using vr' by (auto simp: call_scenario_eval)
  from toggleMute_flag_not_applied_by_produce [OF vr' ub, where eng = willing_engine and m = True]
  have d: "map_option isMuted (get_user (snd (toggleMute willing_engine call_scenario ''r1'' ''B'' True)) ''r1'' ''B'')
     = Some True"
    by blast
  from a b c d show ?thesis by blast
qed

subsection \<open>Consuming\<close>

lemma consume_only_if:
  "consume eng s rid uid pid caps = (Inr c, s') \<Longrightarrow>
   \<exists>vr u t. map_of (voiceRooms s) rid = Some vr \<and> canConsume eng (r_id (vr_router vr)) pid caps \<and>
     map_of (vr_users vr) uid = Some u \<and> consumerTransport u = Some t \<and>
     \<not> rejects eng (length (engine_log s)) \<and>
     c = \<lparr>c_id = new_id eng (length (engine_log s)), c_producerId = pid, c_paused = True\<rparr> \<and>
     s' = put_user (s\<lparr>engine_log := engine_log s @ [TransportConsume (t_id t) pid caps True]\<rparr>) rid vr uid
            (u\<lparr>consumers := AList.update (c_id c) c (consumers u)\<rparr>)"
  by (auto simp: consume_def engine_request_def split: option.splits if_splits)

lemma consume_if:
  assumes "map_of (voiceRooms s) rid = Some vr" "canConsume eng (r_id (vr_router vr)) pid caps"
    "map_of (vr_users vr) uid = Some u" "consumerTransport u = Some t"
    "\<not> rejects eng (length (engine_log s))"
  shows "succeeded (consume eng s rid uid pid caps)"
  using assms by (simp add: consume_def engine_request_def succeeded_def)

lemma succeeded_iff: "succeeded out \<longleftrightarrow> (\<exists>x s'. out = (Inr x, s'))"
  by (cases out) (auto simp: succeeded_def split: sum.splits)

lemma consume_rejected:
  assumes "map_of (voiceRooms s) rid = Some vr" "canConsume eng (r_id (vr_router vr)) pid caps"
    "map_of (vr_users vr) uid = Some u" "consumerTransport u = Some t"
    "rejects eng (length (engine_log s))"
  shows "consume eng s rid uid pid caps =
     (Inl EngineRejected, s\<lparr>engine_log := engine_log s @ [TransportConsume (t_id t) pid caps True]\<rparr>)"
  using assms by (simp add: consume_def engine_request_def)

lemma call_scenario_of_late_rejecting: "call_scenario_of late_rejecting_engine = call_scenario"
  by (simp add: call_scenario_of_def call_scenario_eval late_rejecting_engine_def voice_defs Let_def)

text \<open>
  C7 as stated fails on the code: the four conditions are not sufficient, because
  \<^verbatim>\<open>consume\<close> awaits \<^verbatim>\<open>transport.consume\<close> after all its checks, and the method throws
  when the engine rejects that call. Take the engine that accepts its first five calls and
  rejects later ones; with it the calls of the example lead to the same state, in which
  \<open>r1\<close> exists, its router reports \<open>A\<close>'s producer consumable, and \<open>B\<close> is a
  participant with a receive transport. \<open>B\<close>'s \<^verbatim>\<open>consume\<close> of that producer fails: the
  request is made on \<open>B\<close>'s receive transport, the engine rejects it, and no consumer is
  stored.
\<close>

theorem consume_rejected_by_engine:
  "call_scenario_of late_rejecting_engine = call_scenario \<and>
   map_option (r_id \<circ> vr_router) (map_of (voiceRooms call_scenario) ''r1'') = Some ''#'' \<and>
   canConsume late_rejecting_engine ''#'' ''#ii'' ''caps'' \<and>
   map_option consumerTransport (get_user call_scenario ''r1'' ''B'') = Some (Some \<lparr>t_id = ''#iiii''\<rparr>) \<and>
   consume late_rejecting_engine call_scenario ''r1'' ''B'' ''#ii'' ''caps'' =
     (Inl EngineRejected,
      call_scenario\<lparr>engine_log := engine_log call_scenario @
         [TransportConsume ''#iiii'' ''#ii'' ''caps'' True]\<rparr>) \<and>
   \<not> succeeded (consume late_rejecting_engine call_scenario ''r1'' ''B'' ''#ii'' ''caps'')"
  by (simp add: call_scenario_of_late_rejecting)
     (simp add: call_scenario_eval late_rejecting_engine_def voice_defs)

text \<open>
  C7, amended. \<^verbatim>\<open>consume\<close> succeeds if and only if the room exists, its router reports
  the producer id consumable under the given capabilities, the participant exists and has
  a receive transport, and the engine accepts the \<^verbatim>\<open>transport.consume\<close> call. Whenever it
  succeeds, the call made on the engine is a consume request on the participant's receive
  transport, for the given producer and capabilities, with \<^verbatim>\<open>paused: true\<close>; the consumer
  is paused, is for the given producer, and is stored in the participant's consumer map
  under its own id. When the four conditions hold and the engine rejects the call,
  \<^verbatim>\<open>consume\<close> fails with the engine's error and the voice-room table is as before.
\<close>

theorem consume_succeeds_iff:
  "(succeeded (consume eng s rid uid pid caps) \<longleftrightarrow>
      (\<exists>vr u t. map_of (voiceRooms s) rid = Some vr \<and>
         canConsume eng (r_id (vr_router vr)) pid caps \<and>
         map_of (vr_users vr) uid = Some u \<and> consumerTransport u = Some t) \<and>
      \<not> rejects eng (length (engine_log s))) \<and>
   (\<forall>c s'. consume eng s rid uid pid caps = (Inr c, s') \<longrightarrow>
      c_paused c \<and> c_producerId c = pid \<and>
      (\<exists>t. map_option consumerTransport (get_user s rid uid) = Some (Some t) \<and>
           engine_log s' = engine_log s @ [TransportConsume (t_id t) pid caps True]) \<and>
      (\<exists>u'. get_user s' rid uid = Some u' \<and> map_of (consumers u') (c_id c) = Some c)) \<and>
   (\<forall>vr u t. map_of (voiceRooms s) rid = Some vr \<and>
         canConsume eng (r_id (vr_router vr)) pid caps \<and>
         map_of (vr_users vr) uid = Some u \<and> consumerTransport u = Some t \<and>
         rejects eng (length (engine_log s)) \<longrightarrow>
      fst (consume eng s rid uid pid caps) = Inl EngineRejected \<and>
      voiceRooms (snd (consume eng s rid uid pid caps)) = voiceRooms s \<and>
      engine_log (snd (consume eng s rid uid pid caps)) =
        engine_log s @ [TransportConsume (t_id t) pid caps True])"
proof (intro conjI allI impI)
  show "succeeded (consume eng s rid uid pid caps) \<longleftrightarrow>
      (\<exists>vr u t. map_of (voiceRooms s) rid = Some vr \<and>
         canConsume eng (r_id (vr_router vr)) pid caps \<and>
         map_of (vr_users vr) uid = Some u \<and> consumerTransport u = Some t) \<and>
      \<not> rejects eng (length (engine_log s))"
  proof
    assume "succeeded (consume eng s rid uid pid caps)"
    then obtain c s' where "consume eng s rid uid pid caps = (Inr c, s')"
      by (auto simp: succeeded_iff)
    from consume_only_if [OF this] show "(\<exists>vr u t. map_of (voiceRooms s) rid = Some vr \<and>
         canConsume eng (r_id (vr_router vr)) pid caps \<and>
         map_of (vr_users vr) uid = Some u \<and> consumerTransport u = Some t) \<and>
      \<not> rejects eng (length (engine_log s))"
      by blast
  next
    assume "(\<exists>vr u t. map_of (voiceRooms s) rid = Some vr \<and>
         canConsume eng (r_id (vr_router vr)) pid caps \<and>
         map_of (vr_users vr) uid = Some u \<and> consumerTransport u = Some t) \<and>
      \<not> rejects eng (length (engine_log s))"
    then show "succeeded (consume eng s rid uid pid caps)"
      by (auto intro: consume_if)
  qed
next
  fix c s'
  assume ok: "consume eng s rid uid pid caps = (Inr c, s')"
  from consume_only_if [OF ok] obtain vr u and t :: transport_handle where
    vr: "map_of (voiceRooms s) rid = Some vr" and u: "map_of (vr_users vr) uid = Some u" and
    t: "consumerTransport u = Some t" and
    c: "c = \<lparr>c_id = new_id eng (length (engine_log s)), c_producerId = pid, c_paused = True\<rparr>" and
    s': "s' = put_user (s\<lparr>engine_log := engine_log s @ [TransportConsume (t_id t) pid caps True]\<rparr>) rid vr uid
            (u\<lparr>consumers := AList.update (c_id c) c (consumers u)\<rparr>)"
    by blast
  show "c_paused c" by (simp add: c)
  show "c_producerId c = pid" by (simp add: c)
  have "map_option consumerTransport (get_user s rid uid) = Some (Some t)"
    by (simp add: get_user_def vr u t)
  moreover have "engine_log s' = engine_log s @ [TransportConsume (t_id t) pid caps True]"
    by (simp add: s' engine_log_put_user)
  ultimately show "\<exists>t. map_option consumerTransport (get_user s rid uid) = Some (Some t) \<and>
           engine_log s' = engine_log s @ [TransportConsume (t_id t) pid caps True]"
    by blast
  show "\<exists>u'. get_user s' rid uid = Some u' \<and> map_of (consumers u') (c_id c) = Some c"
    by (simp add: s' get_user_put_user AList.update_conv')
next
  fix vr u and t :: transport_handle
  assume h: "map_of (voiceRooms s) rid = Some vr \<and>
         canConsume eng (r_id (vr_router vr)) pid caps \<and>
         map_of (vr_users vr) uid = Some u \<and> consumerTransport u = Some t \<and>
         rejects eng (length (engine_log s))"
  then have r: "consume eng s rid uid pid caps =
     (Inl EngineRejected, s\<lparr>engine_log := engine_log s @ [TransportConsume (t_id t) pid caps True]\<rparr>)"
    by (simp add: consume_rejected)
  show "fst (consume eng s rid uid pid caps) = Inl EngineRejected" by (simp add: r)
  show "voiceRooms (snd (consume eng s rid uid pid caps)) = voiceRooms s" by (simp add: r)
  show "engine_log (snd (consume eng s rid uid pid caps)) =
        engine_log s @ [TransportConsume (t_id t) pid caps True]" by (simp add: r)
qed

theorem consume_succeeds_iff_witness:
  "succeeded (consume willing_engine call_scenario ''r1'' ''B'' ''#ii'' ''caps'') \<and>
   consume willing_engine call_scenario ''r1'' ''B'' ''#ii'' ''caps'' =
     (Inr \<lparr>c_id = ''#iiiii'', c_producerId = ''#ii'', c_paused = True\<rparr>,
      snd (consume willing_engine call_scenario ''r1'' ''B'' ''#ii'' ''caps'')) \<and>
   engine_log (snd (consume willing_engine call_scenario ''r1'' ''B'' ''#ii'' ''caps'')) =
     engine_log call_scenario @ [TransportConsume ''#iiii'' ''#ii'' ''caps'' True] \<and>
   \<not> succeeded (consume willing_engine call_scenario ''r1'' ''C'' ''#ii'' ''caps'') \<and>
   \<not> succeeded (consume willing_engine call_scenario ''r2'' ''B'' ''#ii'' ''caps'') \<and>
   \<not> succeeded (consume late_rejecting_engine call_scenario ''r1'' ''B'' ''#ii'' ''caps'') \<and>
   fst (consume late_rejecting_engine call_scenario ''r1'' ''B'' ''#ii'' ''caps'') = Inl EngineRejected"
proof -
  have acc: "\<not> rejects willing_engine (length (engine_log call_scenario))"
    by (rule willing_accepts)
  have rej: "rejects late_rejecting_engine (length (engine_log call_scenario))"
    by (simp add: call_scenario_eval late_rejecting_engine_def)
  note T1 = consume_succeeds_iff [where eng = willing_engine and s = call_scenario
      and rid = "''r1''" and uid = "''B''" and pid = "''#ii''" and caps = "''caps''"]
  note T2 = consume_succeeds_iff [where eng = willing_engine and s = call_scenario
      and rid = "''r1''" and uid = "''C''" and pid = "''#ii''" and caps = "''caps''"]
  note T3 = consume_succeeds_iff [where eng = willing_engine and s = call_scenario
      and rid = "''r2''" and uid = "''B''" and pid = "''#ii''" and caps = "''caps''"]
  note T4 = consume_succeeds_iff [where eng = late_rejecting_engine and s = call_scenario
      and rid = "''r1''" and uid = "''B''" and pid = "''#ii''" and caps = "''caps''"]
  have r1: "\<exists>vr u t. map_of (voiceRooms call_scenario) ''r1'' = Some vr \<and>
      canConsume willing_engine (r_id (vr_router vr)) ''#ii'' ''caps'' \<and>
      map_of (vr_users vr) ''B'' = Some u \<and> consumerTransport u = Some t"
    by (simp add: call_scenario_eval willing_engine_def)
  have r2: "\<not> (\<exists>vr u t. map_of (voiceRooms call_scenario) ''r1'' = Some vr \<and>
      canConsume willing_engine (r_id (vr_router vr)) ''#ii'' ''caps'' \<and>
      map_of (vr_users vr) ''C'' = Some u \<and> consumerTransport u = Some t)"
    by (simp add: call_scenario_eval)
  have r3: "\<not> (\<exists>vr u t. map_of (voiceRooms call_scenario) ''r2'' = Some vr \<and>
      canConsume willing_engine (r_id (vr_router vr)) ''#ii'' ''caps'' \<and>
      map_of (vr_users vr) ''B'' = Some u \<and> consumerTransport u = Some t)"
    by (simp add: call_scenario_eval)
  obtain vr u and t :: transport_handle where r4:
    "map_of (voiceRooms call_scenario) ''r1'' = Some vr \<and>
      canConsume late_rejecting_engine (r_id (vr_router vr)) ''#ii'' ''caps'' \<and>
      map_of (vr_users vr) ''B'' = Some u \<and> consumerTransport u = Some t \<and>
      rejects late_rejecting_engine (length (engine_log call_scenario))"
    using rej by (simp add: call_scenario_eval late_rejecting_engine_def willing_engine_def)
  from T1 r1 acc have a: "succeeded (consume willing_engine call_scenario ''r1'' ''B'' ''#ii'' ''caps'')"
    by blast
  from T2 r2 have b: "\<not> succeeded (consume willing_engine call_scenario ''r1'' ''C'' ''#ii'' ''caps'')"
    by blast
  from T3 r3 have c: "\<not> succeeded (consume willing_engine call_scenario ''r2'' ''B'' ''#ii'' ''caps'')"
    by blast
  from T4 rej have d: "\<not> succeeded (consume late_rejecting_engine call_scenario ''r1'' ''B'' ''#ii'' ''caps'')"
    by blast
  from T4 r4 have e: "fst (consume late_rejecting_engine call_scenario ''r1'' ''B'' ''#ii'' ''caps'') = Inl EngineRejected"
    by blast
  have v: "fst (consume willing_engine call_scenario ''r1'' ''B'' ''#ii'' ''caps'') =
     Inr \<lparr>c_id = ''#iiiii'', c_producerId = ''#ii'', c_paused = True\<rparr>"
    by (simp add: call_scenario_eval voice_defs)
  then have v': "consume willing_engine call_scenario ''r1'' ''B'' ''#ii'' ''caps'' =
     (Inr \<lparr>c_id = ''#iiiii'', c_producerId = ''#ii'', c_paused = True\<rparr>,
      snd (consume willing_engine call_scenario ''r1'' ''B'' ''#ii'' ''caps''))"
    by (metis prod.collapse)
  have tb: "map_option consumerTransport (get_user call_scenario ''r1'' ''B'') = Some (Some \<lparr>t_id = ''#iiii''\<rparr>)"
    by (simp add: call_scenario_eval get_user_def)
  from T1 v' obtain t' :: transport_handle where
    "map_option consumerTransport (get_user call_scenario ''r1'' ''B'') = Some (Some t')"
    "engine_log (snd (consume willing_engine call_scenario ''r1'' ''B'' ''#ii'' ''caps'')) =
       engine_log call_scenario @ [TransportConsume (t_id t') ''#ii'' ''caps'' True]"
    by blast
  with tb have l: "engine_log (snd (consume willing_engine call_scenario ''r1'' ''B'' ''#ii'' ''caps'')) =
     engine_log call_scenario @ [TransportConsume ''#iiii'' ''#ii'' ''caps'' True]"
    by simp
  from a v' l b c d e show ?thesis by blast
qed

lemma producers_except_excludes: "uid \<notin> pi_userId ` set (producers_except uid us)"
  by (induction uid us rule: producers_except.induct) (auto split: option.splits)

text \<open>
  C9. \<^verbatim>\<open>consume\<close> does not check who owns the producer: a participant with a receive
  transport consumes any producer id the router reports consumable (the engine accepting
  the call), its own producer included, while \<^verbatim>\<open>getProducersForUser\<close> never lists an
  entry of the caller.
\<close>

theorem consume_ignores_ownership:
  assumes "map_of (voiceRooms s) rid = Some vr" "map_of (vr_users vr) uid = Some u"
    "consumerTransport u = Some t" "\<not> rejects eng (length (engine_log s))"
  shows "(canConsume eng (r_id (vr_router vr)) pid caps \<longrightarrow> succeeded (consume eng s rid uid pid caps)) \<and>
         (\<forall>p. producer u = Some p \<and> canConsume eng (r_id (vr_router vr)) (p_id p) caps \<longrightarrow>
              succeeded (consume eng s rid uid (p_id p) caps)) \<and>
         uid \<notin> pi_userId ` set (getProducersForUser s rid uid)"
  using assms
  by (auto intro: consume_if simp: getProducersForUser_def producers_except_excludes)


theorem consume_ignores_ownership_witness:
  "map_option (map_option p_id \<circ> producer) (get_user call_scenario ''r1'' ''A'') = Some (Some ''#ii'') \<and>
   succeeded (consume willing_engine call_scenario ''r1'' ''A'' ''#ii'' ''caps'') \<and>
   ''A'' \<notin> pi_userId ` set (getProducersForUser call_scenario ''r1'' ''A'')"
proof -
  have acc: "\<not> rejects willing_engine (length (engine_log call_scenario))"
    by (rule willing_accepts)
  obtain vr u t p where
    vr: "map_of (voiceRooms call_scenario) ''r1'' = Some vr" and
    u: "map_of (vr_users vr) ''A'' = Some u" and
    t: "consumerTransport u = Some t" and
    p: "producer u = Some p" "p_id p = ''#ii''" and
    can: "canConsume willing_engine (r_id (vr_router vr)) ''#ii'' ''caps''"
    by (simp add: call_scenario_eval willing_engine_def)
  note T = consume_ignores_ownership [OF vr u t acc, where pid = "''#ii''" and caps = "''caps''"]
  from T can have a: "succeeded (consume willing_engine call_scenario ''r1'' ''A'' ''#ii'' ''caps'')"
    by blast
  from T have b: "''A'' \<notin> pi_userId ` set (getProducersForUser call_scenario ''r1'' ''A'')"
    by blast
  have c: "map_option (map_option p_id \<circ> producer) (get_user call_scenario ''r1'' ''A'') = Some (Some ''#ii'')"
    by (simp add: get_user_def vr u p)
  from a b c show ?thesis by blast
qed

end
